theory Spec2Isabelle
  imports Main "HOL-Library.Sublist"
begin

section \<open>Repository URL parser\<close>

text \<open>
  The three operations that take a repository URL parse it with the same two lines
  (agent.py, lines 129-130, 262-263 and 381-382):
  \<^verbatim>\<open>url_pattern = r'github\.com/([^/]+)/([^/]+?)(?:\.git)?/?$'\<close>
  \<^verbatim>\<open>match = re.search(url_pattern, repository_url.replace('https://', '').replace('http://', ''))\<close>
  Strings are lists of characters. Every character the pattern names is ASCII, so the
  matcher treats any other character as an ordinary non-slash character.
\<close>

text \<open>\<^verbatim>\<open>s.replace(old, '')\<close>: scan from the left, drop each occurrence of \<open>old\<close> and go on
  after it. With an empty \<open>old\<close> the string is unchanged.\<close>

fun str_remove :: "string \<Rightarrow> string \<Rightarrow> string" where
  "str_remove old [] = []"
| "str_remove old (c # cs) =
     (if old \<noteq> [] \<and> prefix old (c # cs)
      then str_remove old (drop (length old - 1) cs)
      else c # str_remove old cs)"

text \<open>\<^verbatim>\<open>$\<close> without \<^verbatim>\<open>re.MULTILINE\<close>: the end of the string, or the position just before a
  newline that ends the string.\<close>

definition at_dollar :: "string \<Rightarrow> bool" where
  "at_dollar s \<longleftrightarrow> s = [] \<or> s = [CHR 0x0A]"

text \<open>\<^verbatim>\<open>/?$\<close>: take the slash when it is there and the rest is at \<^verbatim>\<open>$\<close>, otherwise try
  \<^verbatim>\<open>$\<close> at once.\<close>

definition opt_slash_dollar :: "string \<Rightarrow> bool" where
  "opt_slash_dollar s \<longleftrightarrow>
     (case s of c # t \<Rightarrow> c = CHR ''/'' \<and> at_dollar t | [] \<Rightarrow> False) \<or> at_dollar s"

text \<open>\<^verbatim>\<open>(?:\.git)?/?$\<close>: first with the literal \<^verbatim>\<open>.git\<close>, then without it.\<close>

definition opt_git_tail :: "string \<Rightarrow> bool" where
  "opt_git_tail s \<longleftrightarrow>
     (prefix ''.git'' s \<and> opt_slash_dollar (drop 4 s)) \<or> opt_slash_dollar s"

text \<open>\<^verbatim>\<open>([^/]+?)\<close> followed by the tail: the lazy group takes one non-slash character,
  tries the rest of the pattern, and takes one more character each time the rest fails.
  The first argument is what the group has taken so far.\<close>

fun lazy_repo :: "string \<Rightarrow> string \<Rightarrow> string option" where
  "lazy_repo acc [] = None"
| "lazy_repo acc (c # cs) =
     (if c = CHR ''/'' then None
      else if opt_git_tail cs then Some (acc @ [c])
      else lazy_repo (acc @ [c]) cs)"

text \<open>\<^verbatim>\<open>([^/]+)/\<close> followed by the rest: the greedy group prefers the longer run of
  non-slash characters and gives a character back only when the rest of the pattern
  fails. The result is \<^verbatim>\<open>match.groups()\<close>.\<close>

fun greedy_owner :: "string \<Rightarrow> (string \<times> string) option" where
  "greedy_owner [] = None"
| "greedy_owner (c # cs) =
     (if c = CHR ''/'' then None
      else case greedy_owner cs of
             Some (ow, rp) \<Rightarrow> Some (c # ow, rp)
           | None \<Rightarrow>
               (case cs of
                  d # ds \<Rightarrow>
                    if d = CHR ''/'' then map_option (Pair [c]) (lazy_repo [] ds) else None
                | [] \<Rightarrow> None))"

text \<open>The whole pattern tried at the start of \<open>s\<close>: the literal \<^verbatim>\<open>github\.com/\<close>, then the
  groups.\<close>

definition match_here :: "string \<Rightarrow> (string \<times> string) option" where
  "match_here s = (if prefix ''github.com/'' s then greedy_owner (drop 11 s) else None)"

text \<open>\<^verbatim>\<open>re.search\<close>: the match at the leftmost position where the pattern matches, trying
  every position up to the end of the string.\<close>

fun re_search :: "string \<Rightarrow> (string \<times> string) option" where
  "re_search [] = match_here []"
| "re_search (c # cs) =
     (case match_here (c # cs) of Some g \<Rightarrow> Some g | None \<Rightarrow> re_search cs)"

definition parse_repository_url :: "string \<Rightarrow> (string \<times> string) option" where
  "parse_repository_url url =
     re_search (str_remove ''http://'' (str_remove ''https://'' url))"

subsection \<open>Shapes of well-formed names\<close>

text \<open>An owner is a non-empty segment without a slash. A repository name is such a
  segment that moreover does not end in \<^verbatim>\<open>.git\<close> (the suffix the pattern strips) and does
  not end in a newline (which \<^verbatim>\<open>$\<close> would leave out of the group).\<close>

definition owner_name_ok :: "string \<Rightarrow> bool" where
  "owner_name_ok ow \<longleftrightarrow> ow \<noteq> [] \<and> CHR ''/'' \<notin> set ow"

definition repo_name_ok :: "string \<Rightarrow> bool" where
  "repo_name_ok rp \<longleftrightarrow>
     rp \<noteq> [] \<and> CHR ''/'' \<notin> set rp \<and> \<not> suffix ''.git'' rp \<and> last rp \<noteq> CHR 0x0A"

text \<open>The optional endings of a URL: nothing, \<^verbatim>\<open>.git\<close>, a slash, or both.\<close>

definition url_suffixes :: "string set" where
  "url_suffixes = {'''', ''.git'', ''/'', ''.git/''}"

text \<open>The optional protocol prefixes.\<close>

definition url_schemes :: "string set" where
  "url_schemes = {'''', ''https://'', ''http://''}"

definition nslash :: "string \<Rightarrow> nat" where
  "nslash s = length (filter (\<lambda>c. c = CHR ''/'') s)"

text \<open>At most \<open>n\<close> slashes, and with exactly \<open>n\<close> of them the string ends in a slash or a
  newline.\<close>

definition tail_shape :: "nat \<Rightarrow> string \<Rightarrow> bool" where
  "tail_shape n s \<longleftrightarrow>
     nslash s \<le> n \<and>
     (nslash s = n \<longrightarrow> s \<noteq> [] \<and> (last s = CHR ''/'' \<or> last s = CHR 0x0A))"

text \<open>No two slashes in a row.\<close>

fun no_double_slash :: "string \<Rightarrow> bool" where
  "no_double_slash (a # b # r) \<longleftrightarrow> \<not> (a = CHR ''/'' \<and> b = CHR ''/'') \<and> no_double_slash (b # r)"
| "no_double_slash _ \<longleftrightarrow> True"

section \<open>Values, exceptions and the outside world\<close>

text \<open>
  Python values as far as the five operations build or read them: the result dictionaries,
  their entries, and decoded JSON. A dictionary is an association list in insertion
  order. JSON numbers are integers here (the operations never compute with them).
\<close>

datatype pyval =
    PNone
  | PBool bool
  | PInt int
  | PStr string
  | PList "pyval list"
  | PDict "(string \<times> pyval) list"

type_synonym dict = "(string \<times> pyval) list"

text \<open>
  Exceptions, all of them subclasses of \<^verbatim>\<open>Exception\<close>. The two classes that the source
  names in an \<^verbatim>\<open>except\<close> clause are kept apart, as is the \<^verbatim>\<open>CalledProcessError\<close> that
  \<^verbatim>\<open>subprocess.run(..., check=True)\<close> raises; the argument is \<^verbatim>\<open>str(e)\<close>.
\<close>

datatype exn =
    FileNotFoundError string
  | TimeoutExpired string
  | CalledProcessError string
  | OtherException string

fun str_exn :: "exn \<Rightarrow> string" where
  "str_exn (FileNotFoundError m) = m"
| "str_exn (TimeoutExpired m) = m"
| "str_exn (CalledProcessError m) = m"
| "str_exn (OtherException m) = m"

record completed_process =
  returncode :: int
  stdout :: string
  stderr :: string

text \<open>A \<^verbatim>\<open>requests.Response\<close>: \<open>json\<close> is what \<^verbatim>\<open>response.json()\<close> returns or raises.\<close>

record response =
  status_code :: int
  resp_text :: string
  json :: "exn + pyval"

text \<open>
  The outside world, one outcome for each external call and its arguments. No operation
  makes the same call twice, so a function of the arguments describes every run.
  The last four fields are library functions whose text the source does not fix:
  \<^verbatim>\<open>str()\<close> of a decoded JSON value inside an f-string, base64 with UTF-8 in both
  directions, and the message of a \<^verbatim>\<open>CalledProcessError\<close>.
\<close>

record world =
  environ_GITHUB_TOKEN :: "string option"
  run_outcome :: "string list \<Rightarrow> exn + completed_process"
  run_effect :: "string list \<Rightarrow> string set \<Rightarrow> string set"
  get_outcome :: "string \<Rightarrow> exn + response"
  put_outcome :: "string \<Rightarrow> dict \<Rightarrow> exn + response"
  mkdtemp_outcome :: "string \<Rightarrow> exn + string"
  rmtree_outcome :: "string \<Rightarrow> exn option"
  system_outcome :: "string \<Rightarrow> exn + int"
  py_str :: "pyval \<Rightarrow> string"
  b64decode_utf8 :: "pyval \<Rightarrow> exn + string"
  utf8_b64encode :: "string \<Rightarrow> exn + string"
  called_process_message :: "string list \<Rightarrow> int \<Rightarrow> string"

text \<open>The external calls an operation makes, in order, each with its \<^verbatim>\<open>timeout=\<close> argument
  in seconds when it has one.\<close>

datatype call =
    Subprocess "string list" "nat option"
  | HttpGet string "nat option"
  | HttpPut string "nat option"
  | OsSystem string

text \<open>
  The state an operation runs in: the directories that exist, the calls made so far, and
  the one local object that the operation mutates in place (\<^verbatim>\<open>diagnosis\<close>, \<^verbatim>\<open>results\<close> or
  \<^verbatim>\<open>fixes_applied\<close>).
\<close>

record 'l state =
  fs :: "string set"
  calls :: "call list"
  locals :: 'l

type_synonym ('l, 'a) io = "'l state \<Rightarrow> (exn + 'a) \<times> 'l state"

definition ret :: "'a \<Rightarrow> ('l, 'a) io" where
  "ret x = (\<lambda>s. (Inr x, s))"

definition raise :: "exn \<Rightarrow> ('l, 'a) io" where
  "raise e = (\<lambda>s. (Inl e, s))"

definition of_result :: "exn + 'a \<Rightarrow> ('l, 'a) io" where
  "of_result r = (\<lambda>s. (r, s))"

definition bind :: "('l, 'a) io \<Rightarrow> ('a \<Rightarrow> ('l, 'b) io) \<Rightarrow> ('l, 'b) io" where
  "bind m f = (\<lambda>s. case m s of (Inl e, s') \<Rightarrow> (Inl e, s') | (Inr x, s') \<Rightarrow> f x s')"

definition seq :: "('l, unit) io \<Rightarrow> ('l, 'b) io \<Rightarrow> ('l, 'b) io" where
  "seq m n = bind m (\<lambda>_. n)"

text \<open>\<^verbatim>\<open>try: m except Exception as e: h e\<close>; a handler that names a class re-raises the
  others itself.\<close>

definition try_except :: "('l, 'a) io \<Rightarrow> (exn \<Rightarrow> ('l, 'a) io) \<Rightarrow> ('l, 'a) io" where
  "try_except m h = (\<lambda>s. case m s of (Inl e, s') \<Rightarrow> h e s' | (Inr x, s') \<Rightarrow> (Inr x, s'))"

text \<open>\<^verbatim>\<open>try: m finally: fin\<close>: \<open>fin\<close> runs on every way out of \<open>m\<close>; an exception of \<open>fin\<close>
  replaces the outcome of \<open>m\<close>.\<close>

definition try_finally :: "('l, 'a) io \<Rightarrow> ('l, unit) io \<Rightarrow> ('l, 'a) io" where
  "try_finally m fin =
     (\<lambda>s. case m s of
            (r, s') \<Rightarrow> (case fin s' of (Inl e, s'') \<Rightarrow> (Inl e, s'') | (Inr _, s'') \<Rightarrow> (r, s'')))"

subsection \<open>External calls\<close>

definition subprocess_run ::
  "world \<Rightarrow> string list \<Rightarrow> nat option \<Rightarrow> ('l, completed_process) io" where
  "subprocess_run w args timeout =
     (\<lambda>s. (run_outcome w args,
            s\<lparr>fs := run_effect w args (fs s), calls := calls s @ [Subprocess args timeout]\<rparr>))"

text \<open>\<^verbatim>\<open>subprocess.run(args, check=True)\<close>.\<close>

definition subprocess_run_check ::
  "world \<Rightarrow> string list \<Rightarrow> nat option \<Rightarrow> ('l, completed_process) io" where
  "subprocess_run_check w args timeout =
     bind (subprocess_run w args timeout) (\<lambda>p.
       if returncode p \<noteq> 0
       then raise (CalledProcessError (called_process_message w args (returncode p)))
       else ret p)"

definition requests_get :: "world \<Rightarrow> string \<Rightarrow> nat option \<Rightarrow> ('l, response) io" where
  "requests_get w url timeout =
     (\<lambda>s. (get_outcome w url, s\<lparr>calls := calls s @ [HttpGet url timeout]\<rparr>))"

definition requests_put ::
  "world \<Rightarrow> string \<Rightarrow> dict \<Rightarrow> nat option \<Rightarrow> ('l, response) io" where
  "requests_put w url body timeout =
     (\<lambda>s. (put_outcome w url body, s\<lparr>calls := calls s @ [HttpPut url timeout]\<rparr>))"

definition os_system :: "world \<Rightarrow> string \<Rightarrow> ('l, int) io" where
  "os_system w cmd = (\<lambda>s. (system_outcome w cmd, s\<lparr>calls := calls s @ [OsSystem cmd]\<rparr>))"

text \<open>\<^verbatim>\<open>tempfile.mkdtemp(prefix=...)\<close>: the new directory exists afterwards.\<close>

definition tempfile_mkdtemp :: "world \<Rightarrow> string \<Rightarrow> ('l, string) io" where
  "tempfile_mkdtemp w pre =
     (\<lambda>s. case mkdtemp_outcome w pre of
            Inl e \<Rightarrow> (Inl e, s)
          | Inr d \<Rightarrow> (Inr d, s\<lparr>fs := insert d (fs s)\<rparr>))"

definition os_path_exists :: "string \<Rightarrow> ('l, bool) io" where
  "os_path_exists p = (\<lambda>s. (Inr (p \<in> fs s), s))"

text \<open>\<^verbatim>\<open>shutil.rmtree(p)\<close>: a missing \<open>p\<close> raises; when the removal raises, \<open>p\<close> itself is
  still there (it is removed last); otherwise \<open>p\<close> and everything below it is gone.\<close>

definition shutil_rmtree :: "world \<Rightarrow> string \<Rightarrow> ('l, unit) io" where
  "shutil_rmtree w p =
     (\<lambda>s. if p \<notin> fs s then (Inl (FileNotFoundError p), s)
          else case rmtree_outcome w p of
                 Some e \<Rightarrow> (Inl e, s)
               | None \<Rightarrow>
                   (Inr (), s\<lparr>fs := Set.filter (\<lambda>q. \<not> (q = p \<or> prefix (p @ ''/'') q)) (fs s)\<rparr>))"

text \<open>\<^verbatim>\<open>os.path.join(a, b)\<close> on POSIX.\<close>

definition path_join :: "string \<Rightarrow> string \<Rightarrow> string" where
  "path_join a b =
     (if prefix ''/'' b then b
      else if a = [] \<or> suffix ''/'' a then a @ b
      else a @ ''/'' @ b)"

subsection \<open>String helpers\<close>

definition is_space :: "char \<Rightarrow> bool" where
  "is_space c \<longleftrightarrow>
     c \<in> set [CHR 0x09, CHR 0x0A, CHR 0x0B, CHR 0x0C, CHR 0x0D,
              CHR 0x1C, CHR 0x1D, CHR 0x1E, CHR 0x1F, CHR 0x20]"

text \<open>\<^verbatim>\<open>s.strip()\<close>, for ASCII whitespace.\<close>

definition strip :: "string \<Rightarrow> string" where
  "strip s = rev (dropWhile is_space (rev (dropWhile is_space s)))"

function str_nat :: "nat \<Rightarrow> string" where
  "str_nat n =
     (if n < 10 then [''0123456789'' ! n]
      else str_nat (n div 10) @ [''0123456789'' ! (n mod 10)])"
  by pat_completeness auto
termination
  by (relation "measure id") auto

text \<open>\<^verbatim>\<open>str(i)\<close> of an integer, as an f-string prints a status code.\<close>

definition str_int :: "int \<Rightarrow> string" where
  "str_int i = (if i < 0 then CHR ''-'' # str_nat (nat (- i)) else str_nat (nat i))"

text \<open>The markers that start a check line, as the UTF-8 bytes of U+2705, U+274C and
  U+26A0 U+FE0F.\<close>

definition check_mark :: string where
  "check_mark = [CHR 0xE2, CHR 0x9C, CHR 0x85]"

definition cross_mark :: string where
  "cross_mark = [CHR 0xE2, CHR 0x9D, CHR 0x8C]"

definition warning_mark :: string where
  "warning_mark = [CHR 0xE2, CHR 0x9A, CHR 0xA0, CHR 0xEF, CHR 0xB8, CHR 0x8F]"

text \<open>\<^verbatim>\<open>type(v).__name__\<close>, for the messages of the errors below.\<close>

fun type_name :: "pyval \<Rightarrow> string" where
  "type_name PNone = ''NoneType''"
| "type_name (PBool _) = ''bool''"
| "type_name (PInt _) = ''int''"
| "type_name (PStr _) = ''str''"
| "type_name (PList _) = ''list''"
| "type_name (PDict _) = ''dict''"

definition quoted :: "string \<Rightarrow> string" where
  "quoted s = [CHR 0x27] @ s @ [CHR 0x27]"

text \<open>\<^verbatim>\<open>v.get(k, dflt)\<close>: only a dictionary has the method.\<close>

fun py_get :: "pyval \<Rightarrow> string \<Rightarrow> pyval \<Rightarrow> exn + pyval" where
  "py_get (PDict kvs) k dflt = Inr (case map_of kvs k of Some v \<Rightarrow> v | None \<Rightarrow> dflt)"
| "py_get v k dflt =
     Inl (OtherException (quoted (type_name v) @ '' object has no attribute '' @ quoted ''get''))"

text \<open>\<^verbatim>\<open>v[k]\<close> on a dictionary (the source reaches it only after \<^verbatim>\<open>v.get\<close> succeeded).\<close>

fun py_getitem :: "pyval \<Rightarrow> string \<Rightarrow> exn + pyval" where
  "py_getitem (PDict kvs) k =
     (case map_of kvs k of Some v \<Rightarrow> Inr v | None \<Rightarrow> Inl (OtherException (quoted k)))"
| "py_getitem v k =
     Inl (OtherException (quoted (type_name v) @ '' object is not subscriptable''))"

text \<open>The value of \<^verbatim>\<open>os.environ.get('GITHUB_TOKEN')\<close> when it is truthy.\<close>

definition truthy_token :: "world \<Rightarrow> string option" where
  "truthy_token w =
     (case environ_GITHUB_TOKEN w of
        Some t \<Rightarrow> if t \<noteq> [] then Some t else None
      | None \<Rightarrow> None)"

section \<open>diagnose_git_setup\<close>

text \<open>The dictionary \<^verbatim>\<open>diagnosis\<close> keeps the three keys of its literal; it is a record with
  one field per key, and \<open>diagnosis_dict\<close> is the mapping that is returned.\<close>

record diagnosis =
  d_status :: string
  checks :: "string list"
  recommendations :: "string list"

definition diagnosis_dict :: "diagnosis \<Rightarrow> dict" where
  "diagnosis_dict d =
     [(''status'', PStr (d_status d)),
      (''checks'', PList (map PStr (checks d))),
      (''recommendations'', PList (map PStr (recommendations d)))]"

definition append_check :: "string \<Rightarrow> (diagnosis, unit) io" where
  "append_check x = (\<lambda>s. (Inr (), s\<lparr>locals := (locals s)\<lparr>checks := checks (locals s) @ [x]\<rparr>\<rparr>))"

definition append_recommendation :: "string \<Rightarrow> (diagnosis, unit) io" where
  "append_recommendation x =
     (\<lambda>s. (Inr (), s\<lparr>locals := (locals s)\<lparr>recommendations := recommendations (locals s) @ [x]\<rparr>\<rparr>))"

text \<open>Check 1: Git installation (lines 33-44).\<close>

definition check_git_installation :: "world \<Rightarrow> (diagnosis, unit) io" where
  "check_git_installation w =
     try_except
       (bind (subprocess_run w [''git'', ''--version''] (Some 5)) (\<lambda>git_version.
          if returncode git_version = 0
          then append_check (check_mark @ '' Git installed: '' @ strip (stdout git_version))
          else seq (append_check (cross_mark @ '' Git not working properly''))
                 (append_recommendation
                    ''Install Git: brew install git (macOS) or apt install git (Ubuntu)'')))
       (\<lambda>e. case e of
              FileNotFoundError _ \<Rightarrow>
                seq (append_check (cross_mark @ '' Git not found''))
                  (append_recommendation ''Install Git from https://git-scm.com/'')
            | TimeoutExpired _ \<Rightarrow> append_check (cross_mark @ '' Git command timed out'')
            | _ \<Rightarrow> raise e)"

text \<open>Check 2: GitHub token (lines 47-67).\<close>

definition check_github_token :: "world \<Rightarrow> (diagnosis, unit) io" where
  "check_github_token w =
     (case truthy_token w of
        Some github_token \<Rightarrow>
          seq (append_check (check_mark @ '' GITHUB_TOKEN environment variable found''))
            (try_except
               (bind (requests_get w ''https://api.github.com/user'' (Some 10)) (\<lambda>response.
                  if status_code response = 200
                  then bind (of_result (json response)) (\<lambda>user_data.
                       bind (of_result (py_get user_data ''login'' (PStr ''Unknown''))) (\<lambda>login.
                       append_check
                         (check_mark @ '' GitHub API access verified for user: '' @ py_str w login)))
                  else seq (append_check
                              (cross_mark @ '' GitHub API access failed: ''
                                 @ str_int (status_code response)))
                         (append_recommendation
                            ''Check if GitHub token is valid and has repo scope'')))
               (\<lambda>e. append_check (cross_mark @ '' GitHub API test failed: '' @ str_exn e)))
      | None \<Rightarrow>
          seq (append_check (cross_mark @ '' GITHUB_TOKEN not found''))
            (append_recommendation
               ''Set GITHUB_TOKEN in .env file with a valid GitHub Personal Access Token''))"

text \<open>Check 3: Git configuration (lines 70-86).\<close>

definition check_git_configuration :: "world \<Rightarrow> (diagnosis, unit) io" where
  "check_git_configuration w =
     try_except
       (bind (subprocess_run w [''git'', ''config'', ''--global'', ''user.name''] None) (\<lambda>git_user.
        bind (subprocess_run w [''git'', ''config'', ''--global'', ''user.email''] None) (\<lambda>git_email.
        seq (if returncode git_user = 0 \<and> strip (stdout git_user) \<noteq> []
             then append_check (check_mark @ '' Git user.name: '' @ strip (stdout git_user))
             else seq (append_check (warning_mark @ '' Git user.name not set globally''))
                    (append_recommendation
                       (''Run: git config --global user.name '' @ quoted ''Your Name'')))
            (if returncode git_email = 0 \<and> strip (stdout git_email) \<noteq> []
             then append_check (check_mark @ '' Git user.email: '' @ strip (stdout git_email))
             else seq (append_check (warning_mark @ '' Git user.email not set globally''))
                    (append_recommendation
                       (''Run: git config --global user.email ''
                          @ quoted ''your.email@example.com''))))))
       (\<lambda>e. append_check (cross_mark @ '' Git config check failed: '' @ str_exn e))"

text \<open>Check 4: Test directory permissions (lines 89-95).\<close>

definition check_directory_permissions :: "world \<Rightarrow> (diagnosis, unit) io" where
  "check_directory_permissions w =
     try_except
       (bind (tempfile_mkdtemp w ''git_test_'') (\<lambda>test_dir.
        seq (append_check (check_mark @ '' Can create temporary directories: '' @ test_dir))
          (shutil_rmtree w test_dir)))
       (\<lambda>e. seq (append_check
                   (cross_mark @ '' Cannot create temporary directories: '' @ str_exn e))
              (append_recommendation ''Check file system permissions''))"

text \<open>Check 5: Network connectivity to GitHub (lines 98-106).\<close>

definition check_network :: "world \<Rightarrow> (diagnosis, unit) io" where
  "check_network w =
     try_except
       (bind (requests_get w ''https://github.com'' (Some 10)) (\<lambda>response.
          if status_code response = 200
          then append_check (check_mark @ '' Network access to GitHub'')
          else append_check
                 (cross_mark @ '' GitHub not accessible: '' @ str_int (status_code response))))
       (\<lambda>e. seq (append_check (cross_mark @ '' Network connectivity issue: '' @ str_exn e))
              (append_recommendation ''Check internet connection and firewall settings''))"

definition return_diagnosis :: "(diagnosis, dict) io" where
  "return_diagnosis = (\<lambda>s. (Inr (diagnosis_dict (locals s)), s))"

text \<open>The body of the outer \<^verbatim>\<open>try\<close>, after \<^verbatim>\<open>diagnosis\<close> has been created.\<close>

definition diagnose_body :: "world \<Rightarrow> (diagnosis, dict) io" where
  "diagnose_body w =
     seq (check_git_installation w)
    (seq (check_github_token w)
    (seq (check_git_configuration w)
    (seq (check_directory_permissions w)
    (seq (check_network w)
     return_diagnosis))))"

definition new_diagnosis :: diagnosis where
  "new_diagnosis = \<lparr>d_status = ''success'', checks = [], recommendations = []\<rparr>"

definition start :: "string set \<Rightarrow> 'l \<Rightarrow> 'l state" where
  "start fs0 l = \<lparr>fs = fs0, calls = [], locals = l\<rparr>"

text \<open>The operation, run from the directories \<open>fs0\<close>: the returned value or the exception
  that leaves the function, and the final state.\<close>

definition diagnose_git_setup :: "world \<Rightarrow> string set \<Rightarrow> (exn + dict) \<times> diagnosis state" where
  "diagnose_git_setup w fs0 =
     try_except (diagnose_body w)
       (\<lambda>e. ret [(''status'', PStr ''error''),
                 (''error_message'', PStr (''Diagnostic failed: '' @ str_exn e))])
       (start fs0 new_diagnosis)"

section \<open>test_simple_clone\<close>

record results =
  r_status :: string
  repository :: string
  tests :: "dict list"

definition results_dict :: "results \<Rightarrow> dict" where
  "results_dict r =
     [(''status'', PStr (r_status r)),
      (''repository'', PStr (repository r)),
      (''tests'', PList (map PDict (tests r)))]"

definition append_test :: "dict \<Rightarrow> (results, unit) io" where
  "append_test t = (\<lambda>s. (Inr (), s\<lparr>locals := (locals s)\<lparr>tests := tests (locals s) @ [t]\<rparr>\<rparr>))"

definition set_status :: "string \<Rightarrow> (results, unit) io" where
  "set_status v = (\<lambda>s. (Inr (), s\<lparr>locals := (locals s)\<lparr>r_status := v\<rparr>\<rparr>))"

definition cleanup_warning :: "exn \<Rightarrow> dict" where
  "cleanup_warning e =
     [(''method'', PStr ''Cleanup''),
      (''status'', PStr ''warning''),
      (''message'', PStr (''Could not clean up: '' @ str_exn e))]"

text \<open>The \<^verbatim>\<open>finally\<close> block (lines 196-206).\<close>

definition cleanup :: "world \<Rightarrow> string \<Rightarrow> (results, unit) io" where
  "cleanup w temp_dir =
     try_except
       (bind (os_path_exists temp_dir) (\<lambda>ex.
          if ex then shutil_rmtree w temp_dir else ret ()))
       (\<lambda>e. append_test (cleanup_warning e))"

definition clone_args :: "string \<Rightarrow> string \<Rightarrow> string \<Rightarrow> string \<Rightarrow> string list" where
  "clone_args github_token owner repo temp_dir =
     [''git'', ''clone'',
      ''https://'' @ github_token @ ''@github.com/'' @ owner @ ''/'' @ repo @ ''.git'',
      path_join temp_dir repo]"

text \<open>The \<^verbatim>\<open>try\<close> block of method 1 with its two \<^verbatim>\<open>except\<close> clauses (lines 152-194). The
  \<^verbatim>\<open>print\<close> of line 153 writes to standard output only and is left out.\<close>

definition clone_attempt ::
  "world \<Rightarrow> string \<Rightarrow> string \<Rightarrow> string \<Rightarrow> string \<Rightarrow> (results, unit) io" where
  "clone_attempt w github_token owner repo temp_dir =
     try_except
       (bind (subprocess_run w (clone_args github_token owner repo temp_dir) (Some 30))
          (\<lambda>clone_result.
             if returncode clone_result = 0
             then seq (append_test
                         [(''method'', PStr ''Token in URL''),
                          (''status'', PStr ''success''),
                          (''message'', PStr ''Clone successful'')])
                 (seq (set_status ''success'')
                 (bind (os_path_exists (path_join (path_join temp_dir repo) ''.git''))
                    (\<lambda>ex.
                       if ex
                       then append_test
                              [(''method'', PStr ''Repository structure''),
                               (''status'', PStr ''success''),
                               (''message'', PStr ''.git directory found'')]
                       else ret ())))
             else append_test
                    [(''method'', PStr ''Token in URL''),
                     (''status'', PStr ''failed''),
                     (''error'', PStr (stderr clone_result)),
                     (''stdout'', PStr (stdout clone_result))]))
       (\<lambda>e. case e of
              TimeoutExpired _ \<Rightarrow>
                append_test
                  [(''method'', PStr ''Token in URL''),
                   (''status'', PStr ''timeout''),
                   (''error'', PStr ''Clone operation timed out after 30 seconds'')]
            | _ \<Rightarrow>
                append_test
                  [(''method'', PStr ''Token in URL''),
                   (''status'', PStr ''error''),
                   (''error'', PStr (str_exn e))])"

text \<open>Method 1: clone with the token in the URL (lines 148-206): the temporary directory,
  the attempt, and the cleanup in \<^verbatim>\<open>finally\<close>.\<close>

definition clone_with_token ::
  "world \<Rightarrow> string \<Rightarrow> string \<Rightarrow> string \<Rightarrow> (results, unit) io" where
  "clone_with_token w github_token owner repo =
     bind (tempfile_mkdtemp w ''clone_test_'') (\<lambda>temp_dir.
       try_finally (clone_attempt w github_token owner repo temp_dir) (cleanup w temp_dir))"

text \<open>Method 2: repository access through the API (lines 209-239).\<close>

definition api_access :: "world \<Rightarrow> string \<Rightarrow> string \<Rightarrow> string \<Rightarrow> (results, unit) io" where
  "api_access w github_token owner repo =
     try_except
       (bind (requests_get w (''https://api.github.com/repos/'' @ owner @ ''/'' @ repo) (Some 10))
          (\<lambda>api_response.
             if status_code api_response = 200
             then bind (of_result (json api_response)) (\<lambda>repo_data.
                  bind (of_result (py_get repo_data ''private'' (PStr ''unknown''))) (\<lambda>private.
                  append_test
                    [(''method'', PStr ''API Access''),
                     (''status'', PStr ''success''),
                     (''message'',
                      PStr (''Repository accessible via API. Private: '' @ py_str w private))]))
             else if status_code api_response = 404
             then append_test
                    [(''method'', PStr ''API Access''),
                     (''status'', PStr ''failed''),
                     (''error'', PStr ''Repository not found or no access'')]
             else append_test
                    [(''method'', PStr ''API Access''),
                     (''status'', PStr ''failed''),
                     (''error'', PStr (''API returned '' @ str_int (status_code api_response)))]))
       (\<lambda>e. append_test
              [(''method'', PStr ''API Access''),
               (''status'', PStr ''error''),
               (''error'', PStr (str_exn e))])"

definition return_results :: "(results, dict) io" where
  "return_results = (\<lambda>s. (Inr (results_dict (locals s)), s))"

definition new_results :: "string \<Rightarrow> string \<Rightarrow> results" where
  "new_results owner repo =
     \<lparr>r_status = ''testing'', repository = owner @ ''/'' @ repo, tests = []\<rparr>"

definition set_locals :: "'l \<Rightarrow> ('l, unit) io" where
  "set_locals l = (\<lambda>s. (Inr (), s\<lparr>locals := l\<rparr>))"

definition invalid_url_message :: "string \<Rightarrow> string" where
  "invalid_url_message repository_url = ''Invalid GitHub URL format: '' @ repository_url"

text \<open>The body of the outer \<^verbatim>\<open>try\<close> (lines 120-241).\<close>

definition test_simple_clone_body :: "world \<Rightarrow> string \<Rightarrow> (results, dict) io" where
  "test_simple_clone_body w repository_url =
     (case truthy_token w of
        None \<Rightarrow>
          ret [(''status'', PStr ''error''),
               (''error_message'', PStr ''No GitHub token found''),
               (''suggestion'', PStr ''Set GITHUB_TOKEN in your .env file'')]
      | Some github_token \<Rightarrow>
          (case parse_repository_url repository_url of
             None \<Rightarrow>
               ret [(''status'', PStr ''error''),
                    (''error_message'', PStr (invalid_url_message repository_url))]
           | Some (owner, repo) \<Rightarrow>
               seq (set_locals (new_results owner repo))
              (seq (clone_with_token w github_token owner repo)
              (seq (api_access w github_token owner repo)
               return_results))))"

text \<open>The local \<^verbatim>\<open>results\<close> is bound at line 141; the value it starts with here is never
  read.\<close>

definition test_simple_clone ::
  "world \<Rightarrow> string \<Rightarrow> string set \<Rightarrow> (exn + dict) \<times> results state" where
  "test_simple_clone w repository_url fs0 =
     try_except (test_simple_clone_body w repository_url)
       (\<lambda>e. ret [(''status'', PStr ''error''),
                 (''error_message'', PStr (''Clone test failed: '' @ str_exn e))])
       (start fs0 (new_results [] []))"

section \<open>get_github_file\<close>

definition contents_url :: "string \<Rightarrow> string \<Rightarrow> string \<Rightarrow> string" where
  "contents_url owner repo file_path =
     ''https://api.github.com/repos/'' @ owner @ ''/'' @ repo @ ''/contents/'' @ file_path"

text \<open>Lines 290-293: the decoded content.\<close>

definition decode_content :: "world \<Rightarrow> pyval \<Rightarrow> (unit, pyval) io" where
  "decode_content w data =
     bind (of_result (py_get data ''encoding'' PNone)) (\<lambda>encoding.
       if encoding = PStr ''base64''
       then bind (of_result (py_getitem data ''content'')) (\<lambda>c.
            bind (of_result (b64decode_utf8 w c)) (\<lambda>decoded. ret (PStr decoded)))
       else of_result (py_get data ''content'' (PStr '''')))"

definition get_github_file_body ::
  "world \<Rightarrow> string \<Rightarrow> string \<Rightarrow> string \<Rightarrow> (unit, dict) io" where
  "get_github_file_body w repository_url file_path branch =
     (case truthy_token w of
        None \<Rightarrow>
          ret [(''status'', PStr ''error''),
               (''error_message'',
                PStr ''GitHub token not found. Please set GITHUB_TOKEN in your .env file.''),
               (''instructions'',
                PStr (''Get a token from https://github.com/settings/tokens with ''
                        @ quoted ''repo'' @ '' scope''))]
      | Some github_token \<Rightarrow>
          (case parse_repository_url repository_url of
             None \<Rightarrow>
               ret [(''status'', PStr ''error''),
                    (''error_message'', PStr (invalid_url_message repository_url)),
                    (''example'', PStr ''Use format: https://github.com/owner/repo'')]
           | Some (owner, repo) \<Rightarrow>
               bind (requests_get w
                       (contents_url owner repo file_path
                          @ (if branch \<noteq> ''main'' then ''?ref='' @ branch else []))
                       (Some 10))
                 (\<lambda>response.
                    if status_code response = 200
                    then bind (of_result (json response)) (\<lambda>data.
                         bind (decode_content w data) (\<lambda>content.
                         bind (of_result (py_get data ''size'' (PInt 0))) (\<lambda>size.
                         bind (of_result (py_get data ''sha'' PNone)) (\<lambda>sha.
                         ret [(''status'', PStr ''success''),
                              (''repository'', PStr (owner @ ''/'' @ repo)),
                              (''file_path'', PStr file_path),
                              (''branch'', PStr branch),
                              (''size'', size),
                              (''content'', content),
                              (''sha'', sha),
                              (''message'',
                               PStr (''Successfully read '' @ file_path @ '' from ''
                                       @ owner @ ''/'' @ repo))]))))
                    else if status_code response = 404
                    then ret [(''status'', PStr ''error''),
                              (''error_message'',
                               PStr (''File not found: '' @ file_path @ '' in ''
                                       @ owner @ ''/'' @ repo)),
                              (''suggestion'', PStr ''Check the file path and branch name'')]
                    else ret [(''status'', PStr ''error''),
                              (''error_message'',
                               PStr (''GitHub API error: '' @ str_int (status_code response))),
                              (''details'', PStr (take 200 (resp_text response)))])))"

definition get_github_file ::
  "world \<Rightarrow> string \<Rightarrow> string \<Rightarrow> string \<Rightarrow> string set \<Rightarrow> (exn + dict) \<times> unit state" where
  "get_github_file w repository_url file_path branch fs0 =
     try_except (get_github_file_body w repository_url file_path branch)
       (\<lambda>e. ret [(''status'', PStr ''error''),
                 (''error_message'', PStr (''Unexpected error: '' @ str_exn e))])
       (start fs0 ())"

section \<open>fix_git_setup\<close>

definition append_fix :: "string \<Rightarrow> (string list, unit) io" where
  "append_fix x = (\<lambda>s. (Inr (), s\<lparr>locals := locals s @ [x]\<rparr>))"

text \<open>Fix 1: Git user configuration (lines 333-338).\<close>

definition fix_user_configuration :: "world \<Rightarrow> (string list, unit) io" where
  "fix_user_configuration w =
     try_except
       (bind (subprocess_run_check w
                [''git'', ''config'', ''--global'', ''user.name'', ''AI Agent''] None) (\<lambda>_.
        bind (subprocess_run_check w
                [''git'', ''config'', ''--global'', ''user.email'', ''ai-agent@example.com''] None)
          (\<lambda>_. append_fix (check_mark @ '' Set Git user.name and user.email''))))
       (\<lambda>e. append_fix (cross_mark @ '' Could not set Git config: '' @ str_exn e))"

text \<open>Fix 2: credential helper (lines 341-346).\<close>

definition fix_credential_helper :: "world \<Rightarrow> (string list, unit) io" where
  "fix_credential_helper w =
     try_except
       (bind (os_system w ''which git-credential-osxkeychain'') (\<lambda>rc.
          if rc = 0
          then bind (subprocess_run_check w
                       [''git'', ''config'', ''--global'', ''credential.helper'', ''osxkeychain'']
                       None)
                 (\<lambda>_. append_fix (check_mark @ '' Set Git credential helper for macOS''))
          else ret ()))
       (\<lambda>e. append_fix (warning_mark @ '' Could not set credential helper: '' @ str_exn e))"

text \<open>Fix 3: cached credentials (lines 349-354).\<close>

definition fix_cached_credentials :: "world \<Rightarrow> (string list, unit) io" where
  "fix_cached_credentials w =
     try_except
       (bind (subprocess_run w [''git'', ''credential'', ''reject''] None) (\<lambda>_.
          append_fix (check_mark @ '' Cleared cached credentials'')))
       (\<lambda>e. append_fix (warning_mark @ '' Could not clear credentials: '' @ str_exn e))"

definition return_fixes :: "(string list, dict) io" where
  "return_fixes =
     (\<lambda>s. (Inr [(''status'', PStr ''success''),
                (''fixes_applied'', PList (map PStr (locals s))),
                (''message'', PStr ''Applied common Git fixes'')], s))"

definition fix_git_setup_body :: "world \<Rightarrow> (string list, dict) io" where
  "fix_git_setup_body w =
     seq (fix_user_configuration w)
    (seq (fix_credential_helper w)
    (seq (fix_cached_credentials w)
     return_fixes))"

definition fix_git_setup :: "world \<Rightarrow> string set \<Rightarrow> (exn + dict) \<times> string list state" where
  "fix_git_setup w fs0 =
     try_except (fix_git_setup_body w)
       (\<lambda>e. ret [(''status'', PStr ''error''),
                 (''error_message'', PStr (''Fix attempt failed: '' @ str_exn e))])
       (start fs0 [])"

section \<open>create_file_via_api\<close>

text \<open>Line 416: \<^verbatim>\<open>result_data.get('commit', {}).get('sha')\<close>.\<close>

definition commit_sha :: "pyval \<Rightarrow> exn + pyval" where
  "commit_sha result_data =
     (case py_get result_data ''commit'' (PDict []) of
        Inl e \<Rightarrow> Inl e
      | Inr commit \<Rightarrow> py_get commit ''sha'' PNone)"

definition create_file_via_api_body ::
  "world \<Rightarrow> string \<Rightarrow> string \<Rightarrow> string \<Rightarrow> string \<Rightarrow> (unit, dict) io" where
  "create_file_via_api_body w repository_url file_path file_content commit_message =
     (case truthy_token w of
        None \<Rightarrow>
          ret [(''status'', PStr ''error''),
               (''error_message'', PStr ''GitHub token not found'')]
      | Some github_token \<Rightarrow>
          (case parse_repository_url repository_url of
             None \<Rightarrow>
               ret [(''status'', PStr ''error''),
                    (''error_message'', PStr (invalid_url_message repository_url))]
           | Some (owner, repo) \<Rightarrow>
               bind (of_result (utf8_b64encode w file_content)) (\<lambda>encoded_content.
               bind (requests_put w (contents_url owner repo file_path)
                       [(''message'', PStr commit_message),
                        (''content'', PStr encoded_content)]
                       (Some 10))
                 (\<lambda>response.
                    if status_code response = 200 \<or> status_code response = 201
                    then bind (of_result (json response)) (\<lambda>result_data.
                         bind (of_result (commit_sha result_data)) (\<lambda>sha.
                         ret [(''status'', PStr ''success''),
                              (''repository'', PStr (owner @ ''/'' @ repo)),
                              (''file_path'', PStr file_path),
                              (''commit_sha'', sha),
                              (''message'',
                               PStr (''Successfully created '' @ file_path
                                       @ '' using GitHub API'')),
                              (''method'', PStr ''api_only'')]))
                    else ret [(''status'', PStr ''error''),
                              (''error_message'',
                               PStr (''GitHub API error: '' @ str_int (status_code response))),
                              (''details'', PStr (take 200 (resp_text response)))]))))"

definition create_file_via_api ::
  "world \<Rightarrow> string \<Rightarrow> string \<Rightarrow> string \<Rightarrow> string \<Rightarrow> string set
     \<Rightarrow> (exn + dict) \<times> unit state" where
  "create_file_via_api w repository_url file_path file_content commit_message fs0 =
     try_except
       (create_file_via_api_body w repository_url file_path file_content commit_message)
       (\<lambda>e. ret [(''status'', PStr ''error''),
                 (''error_message'', PStr (''API file creation failed: '' @ str_exn e))])
       (start fs0 ())"

section \<open>Vocabulary of the claims\<close>

text \<open>Reading a returned mapping: the dictionary when the call returned one, a string
  field, and a field that is a list of strings.\<close>

definition returned :: "(exn + dict) \<times> 'l state \<Rightarrow> dict" where
  "returned out = (case fst out of Inr r \<Rightarrow> r | Inl _ \<Rightarrow> [])"

definition str_field :: "dict \<Rightarrow> string \<Rightarrow> string option" where
  "str_field r k = (case map_of r k of Some (PStr v) \<Rightarrow> Some v | _ \<Rightarrow> None)"

fun the_str :: "pyval \<Rightarrow> string" where
  "the_str (PStr v) = v"
| "the_str _ = []"

definition str_list_field :: "dict \<Rightarrow> string \<Rightarrow> string list" where
  "str_list_field r k = (case map_of r k of Some (PList vs) \<Rightarrow> map the_str vs | _ \<Rightarrow> [])"

definition list_field :: "dict \<Rightarrow> string \<Rightarrow> pyval list" where
  "list_field r k = (case map_of r k of Some (PList vs) \<Rightarrow> vs | _ \<Rightarrow> [])"





text \<open>A check line with the failure marker.\<close>

definition is_failure_line :: "string \<Rightarrow> bool" where
  "is_failure_line e \<longleftrightarrow> prefix cross_mark e"

text \<open>The recommendation that the source appends together with a check line, read off
  lines 38-106: six of the ten failure lines and both warning lines have one.\<close>

definition remedy_for :: "string \<Rightarrow> string option" where
  "remedy_for e =
     (if e = cross_mark @ '' Git not working properly''
      then Some ''Install Git: brew install git (macOS) or apt install git (Ubuntu)''
      else if e = cross_mark @ '' Git not found''
      then Some ''Install Git from https://git-scm.com/''
      else if prefix (cross_mark @ '' GitHub API access failed: '') e
      then Some ''Check if GitHub token is valid and has repo scope''
      else if e = cross_mark @ '' GITHUB_TOKEN not found''
      then Some ''Set GITHUB_TOKEN in .env file with a valid GitHub Personal Access Token''
      else if e = warning_mark @ '' Git user.name not set globally''
      then Some (''Run: git config --global user.name '' @ quoted ''Your Name'')
      else if e = warning_mark @ '' Git user.email not set globally''
      then Some (''Run: git config --global user.email '' @ quoted ''your.email@example.com'')
      else if prefix (cross_mark @ '' Cannot create temporary directories: '') e
      then Some ''Check file system permissions''
      else if prefix (cross_mark @ '' Network connectivity issue: '') e
      then Some ''Check internet connection and firewall settings''
      else None)"

text \<open>The four failure lines that the source appends without a recommendation: the
  timeout of \<^verbatim>\<open>git --version\<close> (line 44), an exception of the API identity call (line 63),
  an exception of the \<^verbatim>\<open>git config\<close> calls (line 86), and a status other than 200 from
  github.com (line 103).\<close>

definition without_remedy :: "string \<Rightarrow> bool" where
  "without_remedy e \<longleftrightarrow>
     e = cross_mark @ '' Git command timed out''
     \<or> prefix (cross_mark @ '' GitHub API test failed: '') e
     \<or> prefix (cross_mark @ '' Git config check failed: '') e
     \<or> prefix (cross_mark @ '' GitHub not accessible: '') e"

text \<open>A check line is accounted for when it is no failure line, or has a recommendation
  in the table, or is one of the four.\<close>

definition accounted :: "string \<Rightarrow> bool" where
  "accounted e \<longleftrightarrow> (if is_failure_line e then remedy_for e \<noteq> None \<or> without_remedy e else True)"

text \<open>An external call that may block: whether it is an HTTP request, and its timeout.\<close>

fun is_http :: "call \<Rightarrow> bool" where
  "is_http (HttpGet _ _) = True"
| "is_http (HttpPut _ _) = True"
| "is_http _ = False"

fun call_timeout :: "call \<Rightarrow> nat option" where
  "call_timeout (Subprocess _ t) = t"
| "call_timeout (HttpGet _ t) = t"
| "call_timeout (HttpPut _ t) = t"
| "call_timeout (OsSystem _) = None"

text \<open>Bounded by an explicit timeout of 5 to 30 seconds.\<close>

definition bounded_call :: "call \<Rightarrow> bool" where
  "bounded_call c \<longleftrightarrow> (case call_timeout c of Some t \<Rightarrow> 5 \<le> t \<and> t \<le> 30 | None \<Rightarrow> False)"

text \<open>What holds of every call: it is bounded, or it is one of the subprocess invocations
  without a \<^verbatim>\<open>timeout=\<close> argument, which are \<^verbatim>\<open>git config\<close>, \<^verbatim>\<open>git credential\<close> and
  \<^verbatim>\<open>os.system\<close>.\<close>

fun untimed_call :: "call \<Rightarrow> bool" where
  "untimed_call (Subprocess args t) \<longleftrightarrow>
     t = None \<and> (take 2 args = [''git'', ''config''] \<or> take 2 args = [''git'', ''credential''])"
| "untimed_call (OsSystem _) \<longleftrightarrow> True"
| "untimed_call _ \<longleftrightarrow> False"

definition call_ok :: "call \<Rightarrow> bool" where
  "call_ok c \<longleftrightarrow> bounded_call c \<or> untimed_call c"

text \<open>The primary clone sub-test succeeded: \<^verbatim>\<open>git clone\<close> returned with exit code 0.\<close>

definition clone_succeeded :: "world \<Rightarrow> string \<Rightarrow> string \<Rightarrow> string \<Rightarrow> string \<Rightarrow> bool" where
  "clone_succeeded w github_token owner repo temp_dir \<longleftrightarrow>
     (case run_outcome w (clone_args github_token owner repo temp_dir) of
        Inr p \<Rightarrow> returncode p = 0
      | Inl _ \<Rightarrow> False)"

subsection \<open>Steps of an operation\<close>

text \<open>A stretch of diagnose_git_setup that leaves \<^verbatim>\<open>status\<close> alone, appends between \<open>lo\<close>
  and \<open>hi\<close> check lines, all accounted for, and appends exactly the recommendations of
  those lines.\<close>

definition diag_step :: "nat \<Rightarrow> nat \<Rightarrow> diagnosis state \<Rightarrow> diagnosis state \<Rightarrow> bool" where
  "diag_step lo hi s s' \<longleftrightarrow>
     d_status (locals s') = d_status (locals s) \<and>
     (\<exists>cs. checks (locals s') = checks (locals s) @ cs \<and> lo \<le> length cs \<and> length cs \<le> hi \<and>
        list_all accounted cs \<and>
        recommendations (locals s') = recommendations (locals s) @ List.map_filter remedy_for cs)"

text \<open>A stretch of any operation whose external calls are all bounded or untimed.\<close>

definition calls_step :: "'l state \<Rightarrow> 'l state \<Rightarrow> bool" where
  "calls_step s s' \<longleftrightarrow> (\<exists>cl. calls s' = calls s @ cl \<and> list_all call_ok cl)"

subsection \<open>Example worlds\<close>

definition ok_process :: completed_process where
  "ok_process = \<lparr>returncode = 0, stdout = ''ok'', stderr = []\<rparr>"

definition ok_response :: response where
  "ok_response = \<lparr>status_code = 200, resp_text = [], json = Inr (PDict [])\<rparr>"

text \<open>Every external call succeeds.\<close>

definition world_ok :: world where
  "world_ok =
     \<lparr>environ_GITHUB_TOKEN = Some ''tok'',
      run_outcome = (\<lambda>args. Inr ok_process),
      run_effect = (\<lambda>args dirs. dirs),
      get_outcome = (\<lambda>url. Inr ok_response),
      put_outcome = (\<lambda>url body. Inr ok_response),
      mkdtemp_outcome = (\<lambda>pre. Inr (''/tmp/'' @ pre @ ''x'')),
      rmtree_outcome = (\<lambda>p. None),
      system_outcome = (\<lambda>cmd. Inr 1),
      py_str = the_str,
      b64decode_utf8 = (\<lambda>v. Inr (the_str v)),
      utf8_b64encode = (\<lambda>v. Inr v),
      called_process_message = (\<lambda>args rc. ''non-zero exit status'')\<rparr>"

text \<open>The variable GITHUB_TOKEN is not set.\<close>

definition world_no_token :: world where
  "world_no_token = world_ok\<lparr>environ_GITHUB_TOKEN := None\<rparr>"

text \<open>Removing a directory tree fails.\<close>

definition world_rmtree_fails :: world where
  "world_rmtree_fails =
     world_ok\<lparr>rmtree_outcome := (\<lambda>p. Some (OtherException ''Permission denied''))\<rparr>"

text \<open>No temporary directory can be created.\<close>

definition world_mkdtemp_fails :: world where
  "world_mkdtemp_fails =
     world_ok\<lparr>mkdtemp_outcome := (\<lambda>pre. Inl (OtherException ''No space left on device''))\<rparr>"

text \<open>\<^verbatim>\<open>git --version\<close> does not answer within its five seconds.\<close>

definition world_git_timeout :: world where
  "world_git_timeout =
     world_ok\<lparr>run_outcome :=
       (\<lambda>args. if args = [''git'', ''--version'']
               then Inl (TimeoutExpired ''timed out after 5 seconds'')
               else Inr ok_process)\<rparr>"

section \<open>Properties of the parser\<close>

lemma nslash_simps [simp]:
  "nslash [] = 0"
  "nslash (c # cs) = (if c = CHR ''/'' then Suc (nslash cs) else nslash cs)"
  "nslash (a @ b) = nslash a + nslash b"
  by (simp_all add: nslash_def)

lemma opt_slash_dollar_iff:
  "opt_slash_dollar u \<longleftrightarrow>
     u = [] \<or> u = [CHR 0x0A] \<or> u = [CHR ''/''] \<or> u = [CHR ''/'', CHR 0x0A]"
  by (cases u) (auto simp: opt_slash_dollar_def at_dollar_def)

lemma opt_slash_dollar_shape: "opt_slash_dollar s \<Longrightarrow> tail_shape 1 s"
  by (cases s) (auto simp: opt_slash_dollar_def at_dollar_def tail_shape_def)

lemma opt_git_tail_shape:
  assumes "opt_git_tail s"
  shows "tail_shape 1 s"
proof (cases "prefix ''.git'' s \<and> opt_slash_dollar (drop 4 s)")
  case True
  then obtain t where s: "s = ''.git'' @ t" and t: "opt_slash_dollar t"
    by (auto simp: prefix_def)
  from opt_slash_dollar_shape [OF t] show ?thesis
    unfolding s tail_shape_def by (cases t) auto
next
  case False
  with assms have "opt_slash_dollar s" by (auto simp: opt_git_tail_def)
  then show ?thesis by (rule opt_slash_dollar_shape)
qed

lemma lazy_repo_shape: "lazy_repo acc s = Some r \<Longrightarrow> tail_shape 1 s"
proof (induction acc s rule: lazy_repo.induct)
  case (1 acc)
  then show ?case by simp
next
  case (2 acc c cs)
  show ?case
  proof (cases "opt_git_tail cs")
    case True
    from opt_git_tail_shape [OF True] 2 show ?thesis
      by (auto simp: tail_shape_def split: if_splits)
  next
    case False
    with 2 show ?thesis by (auto simp: tail_shape_def split: if_splits)
  qed
qed

lemma greedy_owner_shape: "greedy_owner s = Some g \<Longrightarrow> tail_shape 2 s"
proof (induction s arbitrary: g)
  case Nil
  then show ?case by simp
next
  case (Cons c cs)
  show ?case
  proof (cases "greedy_owner cs")
    case (Some h)
    from Cons.IH [OF Some] Cons.prems show ?thesis
      by (auto simp: tail_shape_def split: if_splits)
  next
    case None
    with Cons.prems obtain ds r
      where cs: "cs = CHR ''/'' # ds" and r: "lazy_repo [] ds = Some r"
      by (auto split: if_splits list.splits)
    from lazy_repo_shape [OF r] cs Cons.prems show ?thesis
      by (auto simp: tail_shape_def split: if_splits)
  qed
qed

lemma opt_git_tail_suffix: "suf \<in> url_suffixes \<Longrightarrow> opt_git_tail suf"
  by (auto simp: url_suffixes_def opt_git_tail_def opt_slash_dollar_iff)

lemma repo_name_ok_tl: "repo_name_ok (c # cs) \<Longrightarrow> cs \<noteq> [] \<Longrightarrow> repo_name_ok cs"
  by (auto simp: repo_name_ok_def suffix_Cons)

lemma not_tail_inside_name:
  assumes ok: "repo_name_ok cs" and suf: "suf \<in> url_suffixes"
  shows "\<not> opt_git_tail (cs @ suf)"
proof
  assume t: "opt_git_tail (cs @ suf)"
  from ok have ne: "cs \<noteq> []" and nosl: "CHR ''/'' \<notin> set cs"
    and nogit: "\<not> suffix ''.git'' cs" and nonl: "last cs \<noteq> CHR 0x0A"
    by (auto simp: repo_name_ok_def)
  have l: "last (cs @ suf) \<noteq> CHR 0x0A"
    using suf nonl ne by (auto simp: url_suffixes_def)
  show False
  proof (cases "prefix ''.git'' (cs @ suf) \<and> opt_slash_dollar (drop 4 (cs @ suf))")
    case False
    with t have "opt_slash_dollar (cs @ suf)" by (auto simp: opt_git_tail_def)
    with ne nosl l show False
      by (cases cs) (auto simp: opt_slash_dollar_iff)
  next
    case True
    then obtain u where eq: "cs @ suf = ''.git'' @ u"
      by (auto simp: prefix_def)
    have "drop 4 (cs @ suf) = u" unfolding eq by simp
    with True have u: "opt_slash_dollar u" by simp
    from u l eq have u2: "u = [] \<or> u = [CHR ''/'']"
      by (auto simp: opt_slash_dollar_iff)
    from eq have "rev suf @ rev cs = rev u @ rev ''.git''"
      by (metis rev_append)
    with u2 suf ne nosl nogit show False
      by (auto simp: url_suffixes_def suffix_def)
  qed
qed

lemma lazy_repo_complete:
  "repo_name_ok rp \<Longrightarrow> suf \<in> url_suffixes \<Longrightarrow> lazy_repo acc (rp @ suf) = Some (acc @ rp)"
proof (induction rp arbitrary: acc)
  case Nil
  then show ?case by (simp add: repo_name_ok_def)
next
  case (Cons c cs)
  from Cons.prems have c: "c \<noteq> CHR ''/''" by (auto simp: repo_name_ok_def)
  show ?case
  proof (cases "cs = []")
    case True
    with c opt_git_tail_suffix [OF Cons.prems(2)] show ?thesis by simp
  next
    case False
    with Cons.prems have ok: "repo_name_ok cs" by (auto dest: repo_name_ok_tl)
    from not_tail_inside_name [OF ok Cons.prems(2)] c Cons.IH [OF ok Cons.prems(2)]
    show ?thesis by simp
  qed
qed

lemma greedy_owner_complete:
  "owner_name_ok ow \<Longrightarrow>
     greedy_owner (ow @ CHR ''/'' # rest) = map_option (Pair ow) (lazy_repo [] rest)"
proof (induction ow)
  case Nil
  then show ?case by (simp add: owner_name_ok_def)
next
  case (Cons c cs)
  from Cons.prems have c: "c \<noteq> CHR ''/''" by (auto simp: owner_name_ok_def)
  show ?case
  proof (cases "cs = []")
    case True
    with c show ?thesis by simp
  next
    case False
    with Cons.prems have cs: "owner_name_ok cs" by (auto simp: owner_name_ok_def)
    from Cons.IH [OF cs] c cs show ?thesis
      by (cases cs) (auto simp: owner_name_ok_def split: option.splits)
  qed
qed

lemma match_here_complete:
  assumes "owner_name_ok ow" "repo_name_ok rp" "suf \<in> url_suffixes"
  shows "match_here (''github.com/'' @ ow @ ''/'' @ rp @ suf) = Some (ow, rp)"
  using greedy_owner_complete [OF assms(1), of "rp @ suf"]
    lazy_repo_complete [OF assms(2,3), of "[]"]
  by (simp add: match_here_def)

lemma match_here_not_earlier:
  assumes ow: "owner_name_ok ow" and rp: "repo_name_ok rp" and suf: "suf \<in> url_suffixes"
    and p: "p \<noteq> []"
  shows "match_here (p @ ''github.com/'' @ ow @ ''/'' @ rp @ suf) = None"
proof (rule ccontr)
  let ?X = "ow @ ''/'' @ rp @ suf"
  assume "match_here (p @ ''github.com/'' @ ?X) \<noteq> None"
  then obtain g where g: "greedy_owner (drop 11 (p @ ''github.com/'' @ ?X)) = Some g"
    by (auto simp: match_here_def split: if_splits)
  have "p @ ''github.com/'' @ ?X = (p @ ''github.com'') @ (CHR ''/'' # ?X)" by simp
  moreover have "11 \<le> length (p @ ''github.com'')" using p by (cases p) auto
  ultimately have d:
    "drop 11 (p @ ''github.com/'' @ ?X) = drop 11 (p @ ''github.com'') @ (CHR ''/'' # ?X)"
    by (simp only: drop_append) simp
  define z where "z = drop 11 (p @ ''github.com'')"
  from greedy_owner_shape [OF g] have sh: "tail_shape 2 (z @ CHR ''/'' # ?X)"
    unfolding d z_def .
  from rp have ne: "rp \<noteq> []" and nosl: "CHR ''/'' \<notin> set rp" and nonl: "last rp \<noteq> CHR 0x0A"
    by (auto simp: repo_name_ok_def)
  from nosl ne have lsl: "last rp \<noteq> CHR ''/''" by (metis last_in_set)
  from sh suf ne nonl lsl show False
    by (auto simp: tail_shape_def url_suffixes_def split: if_splits)
qed

lemma re_search_unanchored:
  assumes ow: "owner_name_ok ow" and rp: "repo_name_ok rp" and suf: "suf \<in> url_suffixes"
  shows "re_search (pre @ ''github.com/'' @ ow @ ''/'' @ rp @ suf) = Some (ow, rp)"
proof (induction pre)
  case Nil
  from match_here_complete [OF assms] show ?case by simp
next
  case (Cons c pre)
  from match_here_not_earlier [OF assms, of "c # pre"] Cons.IH show ?case by simp
qed


subsection \<open>Removing the protocol prefix\<close>

lemma no_double_slash_tl: "no_double_slash (c # cs) \<Longrightarrow> no_double_slash cs"
  by (cases cs) auto

lemma no_double_slash_append:
  "no_double_slash a \<Longrightarrow> no_double_slash b \<Longrightarrow>
     (a = [] \<or> b = [] \<or> last a \<noteq> CHR ''/'' \<or> hd b \<noteq> CHR ''/'') \<Longrightarrow>
     no_double_slash (a @ b)"
proof (induction a)
  case Nil
  then show ?case by simp
next
  case (Cons c cs)
  show ?case
  proof (cases cs)
    case Nil
    with Cons.prems show ?thesis by (cases b) auto
  next
    case (Cons d r)
    with Cons.IH Cons.prems show ?thesis by auto
  qed
qed

lemma no_slash_no_double: "CHR ''/'' \<notin> set a \<Longrightarrow> no_double_slash a"
  by (induction a rule: no_double_slash.induct) auto

lemma str_remove_skip:
  "\<not> prefix old (c # cs) \<Longrightarrow> str_remove old (c # cs) = c # str_remove old cs"
  by simp

lemma str_remove_https_id: "no_double_slash s \<Longrightarrow> str_remove ''https://'' s = s"
proof (induction s)
  case Nil
  then show ?case by simp
next
  case (Cons c cs)
  have "\<not> prefix ''https://'' (c # cs)"
  proof
    assume "prefix ''https://'' (c # cs)"
    then obtain r where "c # cs = ''https://'' @ r" by (auto simp: prefix_def)
    with Cons.prems show False by auto
  qed
  then have "str_remove ''https://'' (c # cs) = c # str_remove ''https://'' cs"
    by (rule str_remove_skip)
  with Cons.IH [OF no_double_slash_tl [OF Cons.prems]] show ?case by (simp only:)
qed

lemma str_remove_http_id: "no_double_slash s \<Longrightarrow> str_remove ''http://'' s = s"
proof (induction s)
  case Nil
  then show ?case by simp
next
  case (Cons c cs)
  have "\<not> prefix ''http://'' (c # cs)"
  proof
    assume "prefix ''http://'' (c # cs)"
    then obtain r where "c # cs = ''http://'' @ r" by (auto simp: prefix_def)
    with Cons.prems show False by auto
  qed
  then have "str_remove ''http://'' (c # cs) = c # str_remove ''http://'' cs"
    by (rule str_remove_skip)
  with Cons.IH [OF no_double_slash_tl [OF Cons.prems]] show ?case by (simp only:)
qed

lemma wellformed_no_double_slash:
  assumes ow: "owner_name_ok ow" and rp: "repo_name_ok rp" and suf: "suf \<in> url_suffixes"
  shows "no_double_slash (''github.com/'' @ ow @ ''/'' @ rp @ suf)"
proof -
  from rp have rne: "rp \<noteq> []" and rns: "CHR ''/'' \<notin> set rp" by (auto simp: repo_name_ok_def)
  from ow have one: "ow \<noteq> []" and ons: "CHR ''/'' \<notin> set ow" by (auto simp: owner_name_ok_def)
  from rns rne have rl: "last rp \<noteq> CHR ''/''" and rh: "hd rp \<noteq> CHR ''/''"
    by (metis last_in_set, metis hd_in_set)
  from ons one have ol: "last ow \<noteq> CHR ''/''" and oh: "hd ow \<noteq> CHR ''/''"
    by (metis last_in_set, metis hd_in_set)
  have s: "no_double_slash suf" using suf by (auto simp: url_suffixes_def)
  have 1: "no_double_slash (rp @ suf)"
    by (rule no_double_slash_append [OF no_slash_no_double [OF rns] s]) (simp add: rl)
  have 2: "no_double_slash (''/'' @ rp @ suf)"
    by (rule no_double_slash_append [OF _ 1]) (simp_all add: rne rh)
  have 3: "no_double_slash (ow @ ''/'' @ rp @ suf)"
    by (rule no_double_slash_append [OF no_slash_no_double [OF ons] 2]) (simp add: ol)
  have "no_double_slash (''github.com/'' @ ow @ ''/'' @ rp @ suf)"
    by (rule no_double_slash_append [OF _ 3]) (simp_all add: one oh)
  then show ?thesis .
qed

lemma strip_scheme:
  assumes nd: "no_double_slash t" and sch: "scheme \<in> url_schemes"
  shows "str_remove ''http://'' (str_remove ''https://'' (scheme @ t)) = t"
proof -
  from sch consider "scheme = []" | "scheme = ''https://''" | "scheme = ''http://''"
    by (auto simp: url_schemes_def)
  then show ?thesis
  proof cases
    case 1
    with nd show ?thesis by (simp add: str_remove_https_id str_remove_http_id)
  next
    case 2
    have "str_remove ''https://'' (''https://'' @ t) = str_remove ''https://'' t" by simp
    with 2 nd show ?thesis by (simp only: str_remove_https_id str_remove_http_id)
  next
    case 3
    have a: "str_remove ''https://'' (''http://'' @ t) = ''http://'' @ str_remove ''https://'' t"
      by simp
    have b: "str_remove ''http://'' (''http://'' @ t) = str_remove ''http://'' t" by simp
    from 3 nd a b show ?thesis by (simp only: str_remove_https_id str_remove_http_id)
  qed
qed

section \<open>Steps of diagnose_git_setup\<close>

lemmas io_defs = ret_def raise_def of_result_def bind_def seq_def try_except_def try_finally_def

lemmas call_defs = subprocess_run_def subprocess_run_check_def requests_get_def
  requests_put_def os_system_def tempfile_mkdtemp_def os_path_exists_def shutil_rmtree_def

lemmas mark_defs = check_mark_def cross_mark_def warning_mark_def

lemmas diag_defs = append_check_def append_recommendation_def

lemma remedy_for_lines:
  "remedy_for (check_mark @ x) = None"
  "remedy_for (cross_mark @ '' Git not working properly'')
     = Some ''Install Git: brew install git (macOS) or apt install git (Ubuntu)''"
  "remedy_for (cross_mark @ '' Git not found'') = Some ''Install Git from https://git-scm.com/''"
  "remedy_for (cross_mark @ '' Git command timed out'') = None"
  "remedy_for (cross_mark @ '' GitHub API access failed: '' @ x)
     = Some ''Check if GitHub token is valid and has repo scope''"
  "remedy_for (cross_mark @ '' GitHub API test failed: '' @ x) = None"
  "remedy_for (cross_mark @ '' GITHUB_TOKEN not found'')
     = Some ''Set GITHUB_TOKEN in .env file with a valid GitHub Personal Access Token''"
  "remedy_for (warning_mark @ '' Git user.name not set globally'')
     = Some (''Run: git config --global user.name '' @ quoted ''Your Name'')"
  "remedy_for (warning_mark @ '' Git user.email not set globally'')
     = Some (''Run: git config --global user.email '' @ quoted ''your.email@example.com'')"
  "remedy_for (cross_mark @ '' Git config check failed: '' @ x) = None"
  "remedy_for (cross_mark @ '' Cannot create temporary directories: '' @ x)
     = Some ''Check file system permissions''"
  "remedy_for (cross_mark @ '' GitHub not accessible: '' @ x) = None"
  "remedy_for (cross_mark @ '' Network connectivity issue: '' @ x)
     = Some ''Check internet connection and firewall settings''"
  by (simp_all add: remedy_for_def mark_defs)

lemmas remedy_simps = remedy_for_lines [simplified]

lemma accounted_lines:
  "accounted (check_mark @ x)"
  "accounted (warning_mark @ x)"
  "accounted (cross_mark @ '' Git not working properly'')"
  "accounted (cross_mark @ '' Git not found'')"
  "accounted (cross_mark @ '' Git command timed out'')"
  "accounted (cross_mark @ '' GitHub API access failed: '' @ x)"
  "accounted (cross_mark @ '' GitHub API test failed: '' @ x)"
  "accounted (cross_mark @ '' GITHUB_TOKEN not found'')"
  "accounted (cross_mark @ '' Git config check failed: '' @ x)"
  "accounted (cross_mark @ '' Cannot create temporary directories: '' @ x)"
  "accounted (cross_mark @ '' GitHub not accessible: '' @ x)"
  "accounted (cross_mark @ '' Network connectivity issue: '' @ x)"
  unfolding accounted_def remedy_for_lines
  by (simp_all add: is_failure_line_def without_remedy_def mark_defs)

lemmas accounted_simps = accounted_lines [simplified]

lemma map_filter_append: "List.map_filter f (a @ b) = List.map_filter f a @ List.map_filter f b"
  by (simp add: List.map_filter_def)

lemma map_filter_one: "List.map_filter f [x] = (case f x of Some y \<Rightarrow> [y] | None \<Rightarrow> [])"
  by (simp add: List.map_filter_def split: option.splits)

lemma check_network_returns: "fst (check_network w s) = Inr ()"
  by (auto simp: check_network_def io_defs requests_get_def diag_defs split: sum.splits)

lemma check_network_step: "diag_step 1 1 s (snd (check_network w s))"
  by (auto simp: diag_step_def check_network_def io_defs requests_get_def diag_defs
      remedy_simps accounted_simps map_filter_one split: sum.splits)

lemma check_network_calls: "calls_step s (snd (check_network w s))"
  by (auto simp: calls_step_def check_network_def io_defs requests_get_def diag_defs
      call_ok_def bounded_call_def split: sum.splits)


lemma check_git_installation_step:
  "fst (check_git_installation w s) = Inr () \<Longrightarrow> diag_step 1 1 s (snd (check_git_installation w s))"
  by (auto simp: diag_step_def check_git_installation_def io_defs subprocess_run_def diag_defs
      remedy_simps accounted_simps map_filter_one split: sum.splits exn.splits if_splits)

lemma check_git_installation_calls: "calls_step s (snd (check_git_installation w s))"
  by (auto simp: calls_step_def check_git_installation_def io_defs subprocess_run_def diag_defs
      call_ok_def bounded_call_def split: sum.splits exn.splits)

lemma check_github_token_returns: "fst (check_github_token w s) = Inr ()"
  by (auto simp: check_github_token_def io_defs requests_get_def diag_defs
      split: sum.splits option.splits)

lemma check_github_token_step: "diag_step 1 2 s (snd (check_github_token w s))"
  by (auto simp: diag_step_def check_github_token_def io_defs requests_get_def diag_defs
      remedy_simps accounted_simps map_filter_one map_filter_append split: sum.splits option.splits)

lemma check_github_token_calls: "calls_step s (snd (check_github_token w s))"
  by (auto simp: calls_step_def check_github_token_def io_defs requests_get_def diag_defs
      call_ok_def bounded_call_def split: sum.splits option.splits)

lemma check_git_configuration_returns: "fst (check_git_configuration w s) = Inr ()"
  by (auto simp: check_git_configuration_def io_defs subprocess_run_def diag_defs
      split: sum.splits)

lemma check_git_configuration_step: "diag_step 1 2 s (snd (check_git_configuration w s))"
  by (auto simp: diag_step_def check_git_configuration_def io_defs subprocess_run_def diag_defs
      remedy_simps accounted_simps map_filter_one map_filter_append split: sum.splits)

lemma check_git_configuration_calls: "calls_step s (snd (check_git_configuration w s))"
  by (auto simp: calls_step_def check_git_configuration_def io_defs subprocess_run_def diag_defs
      call_ok_def bounded_call_def split: sum.splits)

lemma check_directory_permissions_returns: "fst (check_directory_permissions w s) = Inr ()"
  by (auto simp: check_directory_permissions_def io_defs tempfile_mkdtemp_def shutil_rmtree_def
      diag_defs split: sum.splits option.splits)

lemma check_directory_permissions_step:
  "diag_step 1 2 s (snd (check_directory_permissions w s))"
  by (auto simp: diag_step_def check_directory_permissions_def io_defs tempfile_mkdtemp_def
      shutil_rmtree_def diag_defs remedy_simps accounted_simps map_filter_one map_filter_append
      split: sum.splits option.splits)

lemma check_directory_permissions_calls:
  "calls_step s (snd (check_directory_permissions w s))"
  by (auto simp: calls_step_def check_directory_permissions_def io_defs tempfile_mkdtemp_def
      shutil_rmtree_def diag_defs split: sum.splits option.splits)

section \<open>Composing steps\<close>

lemma seq_Inr: "fst (m s) = Inr () \<Longrightarrow> seq m n s = n (snd (m s))"
  by (cases "m s") (simp add: seq_def bind_def)

lemma seq_Inl: "fst (m s) = Inl e \<Longrightarrow> seq m n s = (Inl e, snd (m s))"
  by (cases "m s") (simp add: seq_def bind_def)

lemma diag_step_trans:
  "diag_step a b s s' \<Longrightarrow> diag_step c d s' s'' \<Longrightarrow> diag_step (a + c) (b + d) s s''"
  by (auto simp: diag_step_def map_filter_append)

lemma calls_step_refl: "calls_step s s"
  by (simp add: calls_step_def)

lemma calls_step_trans: "calls_step s s' \<Longrightarrow> calls_step s' s'' \<Longrightarrow> calls_step s s''"
  by (auto simp: calls_step_def)

lemma calls_step_bind:
  assumes "\<And>s. calls_step s (snd (m s))" and "\<And>x s. calls_step s (snd (f x s))"
  shows "calls_step s (snd (bind m f s))"
proof (cases "m s")
  case (Pair r s')
  with assms(1) [of s] have 1: "calls_step s s'" by simp
  show ?thesis
  proof (cases r)
    case (Inl e)
    with Pair 1 show ?thesis by (simp add: bind_def)
  next
    case (Inr x)
    with Pair have "bind m f s = f x s'" by (simp add: bind_def)
    with calls_step_trans [OF 1 assms(2) [of s' x]] show ?thesis by simp
  qed
qed

lemma calls_step_seq:
  assumes "\<And>s. calls_step s (snd (m s))" and "\<And>s. calls_step s (snd (n s))"
  shows "calls_step s (snd (seq m n s))"
  unfolding seq_def using assms by (rule calls_step_bind)

lemma calls_step_try_except:
  assumes "\<And>s. calls_step s (snd (m s))" and "\<And>e s. calls_step s (snd (h e s))"
  shows "calls_step s (snd (try_except m h s))"
proof (cases "m s")
  case (Pair r s')
  with assms(1) [of s] have 1: "calls_step s s'" by simp
  show ?thesis
  proof (cases r)
    case (Inr x)
    with Pair 1 show ?thesis by (simp add: try_except_def)
  next
    case (Inl e)
    with Pair have "try_except m h s = h e s'" by (simp add: try_except_def)
    with calls_step_trans [OF 1 assms(2) [of s' e]] show ?thesis by simp
  qed
qed

lemma calls_step_try_finally:
  assumes "\<And>s. calls_step s (snd (m s))" and "\<And>s. calls_step s (snd (fin s))"
  shows "calls_step s (snd (try_finally m fin s))"
proof (cases "m s")
  case (Pair r s')
  with assms(1) [of s] have 1: "calls_step s s'" by simp
  obtain r2 s'' where f: "fin s' = (r2, s'')" by (cases "fin s'")
  with assms(2) [of s'] have 2: "calls_step s' s''" by simp
  from Pair f have "snd (try_finally m fin s) = s''"
    by (cases r2) (simp_all add: try_finally_def)
  with calls_step_trans [OF 1 2] show ?thesis by simp
qed

lemma calls_step_ret: "calls_step s (snd (ret x s))"
  by (simp add: ret_def calls_step_refl)

lemma calls_step_start: "calls_step (start fs0 l) s \<Longrightarrow> list_all call_ok (calls s)"
  by (auto simp: calls_step_def start_def)

lemma return_diagnosis_calls: "calls_step s (snd (return_diagnosis s))"
  by (simp add: return_diagnosis_def calls_step_refl)

lemma diagnose_body_calls: "calls_step s (snd (diagnose_body w s))"
  unfolding diagnose_body_def
  by (intro calls_step_seq check_git_installation_calls check_github_token_calls
      check_git_configuration_calls check_directory_permissions_calls check_network_calls
      return_diagnosis_calls)

lemma diagnose_git_setup_calls: "list_all call_ok (calls (snd (diagnose_git_setup w fs0)))"
  unfolding diagnose_git_setup_def
  by (rule calls_step_start, rule calls_step_try_except, rule diagnose_body_calls,
      rule calls_step_ret)

text \<open>The body either raises out of check 1 or returns the dictionary after five steps.\<close>

lemma diagnose_body_cases:
  obtains (raised) e where "fst (diagnose_body w s) = Inl e"
  | (finished) s' where "diagnose_body w s = (Inr (diagnosis_dict (locals s')), s')"
      and "diag_step 5 8 s s'"
proof (cases "fst (check_git_installation w s)")
  case (Inl e)
  then have "fst (diagnose_body w s) = Inl e"
    by (simp add: diagnose_body_def seq_Inl)
  then show ?thesis by (rule raised)
next
  case (Inr u)
  then have r1: "fst (check_git_installation w s) = Inr ()" by simp
  define s1 where "s1 = snd (check_git_installation w s)"
  define s2 where "s2 = snd (check_github_token w s1)"
  define s3 where "s3 = snd (check_git_configuration w s2)"
  define s4 where "s4 = snd (check_directory_permissions w s3)"
  define s5 where "s5 = snd (check_network w s4)"
  have eq: "diagnose_body w s = (Inr (diagnosis_dict (locals s5)), s5)"
    unfolding diagnose_body_def s5_def s4_def s3_def s2_def s1_def
    by (simp add: seq_Inr r1 check_github_token_returns check_git_configuration_returns
        check_directory_permissions_returns check_network_returns return_diagnosis_def)
  have 1: "diag_step 1 1 s s1" unfolding s1_def using r1 by (rule check_git_installation_step)
  have 2: "diag_step 1 2 s1 s2" unfolding s2_def by (rule check_github_token_step)
  have 3: "diag_step 1 2 s2 s3" unfolding s3_def by (rule check_git_configuration_step)
  have 4: "diag_step 1 2 s3 s4" unfolding s4_def by (rule check_directory_permissions_step)
  have 5: "diag_step 1 1 s4 s5" unfolding s5_def by (rule check_network_step)
  from diag_step_trans [OF diag_step_trans [OF diag_step_trans [OF diag_step_trans [OF 1 2] 3] 4] 5]
  have "diag_step 5 8 s s5" by (simp add: eval_nat_numeral)
  with eq show ?thesis by (rule finished)
qed

text \<open>What diagnose_git_setup returns: the error record of the catch-all, or the
  dictionary of a diagnosis reached in five steps from the new one.\<close>

lemma diagnose_git_setup_cases:
  obtains (caught) e where
      "fst (diagnose_git_setup w fs0)
         = Inr [(''status'', PStr ''error''),
                (''error_message'', PStr (''Diagnostic failed: '' @ str_exn e))]"
  | (finished) s' where "fst (diagnose_git_setup w fs0) = Inr (diagnosis_dict (locals s'))"
      and "diag_step 5 8 (start fs0 new_diagnosis) s'"
proof (cases rule: diagnose_body_cases [of w "start fs0 new_diagnosis"])
  case (raised e)
  then have "fst (diagnose_git_setup w fs0)
         = Inr [(''status'', PStr ''error''),
                (''error_message'', PStr (''Diagnostic failed: '' @ str_exn e))]"
    by (cases "diagnose_body w (start fs0 new_diagnosis)")
      (simp add: diagnose_git_setup_def try_except_def ret_def)
  then show ?thesis by (rule caught)
next
  case (finished s')
  then have "fst (diagnose_git_setup w fs0) = Inr (diagnosis_dict (locals s'))"
    by (simp add: diagnose_git_setup_def try_except_def)
  then show ?thesis using finished(2) by (rule that(2))
qed


lemma str_list_field_checks [simp]:
  "str_list_field (diagnosis_dict d) ''checks'' = checks d"
  by (simp add: str_list_field_def diagnosis_dict_def comp_def)

lemma str_list_field_recommendations [simp]:
  "str_list_field (diagnosis_dict d) ''recommendations'' = recommendations d"
  by (simp add: str_list_field_def diagnosis_dict_def comp_def)

section \<open>Steps of test_simple_clone\<close>

lemmas clone_defs = append_test_def set_status_def set_locals_def

lemma clone_attempt_returns: "fst (clone_attempt w t ow rp d s) = Inr ()"
  by (auto simp: clone_attempt_def io_defs subprocess_run_def os_path_exists_def clone_defs
      split: sum.splits exn.splits)

lemma clone_attempt_status:
  "r_status (locals (snd (clone_attempt w t ow rp d s)))
     = (if clone_succeeded w t ow rp d then ''success'' else r_status (locals s))"
  by (auto simp: clone_attempt_def clone_succeeded_def io_defs subprocess_run_def
      os_path_exists_def clone_defs split: sum.splits exn.splits)

lemma clone_attempt_tests:
  "prefix (tests (locals s)) (tests (locals (snd (clone_attempt w t ow rp d s))))"
  by (auto simp: clone_attempt_def io_defs subprocess_run_def os_path_exists_def clone_defs
      split: sum.splits exn.splits)

lemma clone_attempt_calls: "calls_step s (snd (clone_attempt w t ow rp d s))"
  by (auto simp: calls_step_def clone_attempt_def io_defs subprocess_run_def os_path_exists_def
      clone_defs clone_args_def call_ok_def bounded_call_def split: sum.splits exn.splits)

lemma cleanup_returns: "fst (cleanup w d s) = Inr ()"
  by (auto simp: cleanup_def io_defs os_path_exists_def shutil_rmtree_def clone_defs
      split: option.splits)

lemma cleanup_status: "r_status (locals (snd (cleanup w d s))) = r_status (locals s)"
  by (auto simp: cleanup_def io_defs os_path_exists_def shutil_rmtree_def clone_defs
      split: option.splits)

lemma cleanup_calls: "calls (snd (cleanup w d s)) = calls s"
  by (auto simp: cleanup_def io_defs os_path_exists_def shutil_rmtree_def clone_defs
      split: option.splits)

lemma cleanup_tests: "prefix (tests (locals s)) (tests (locals (snd (cleanup w d s))))"
  by (auto simp: cleanup_def io_defs os_path_exists_def shutil_rmtree_def clone_defs
      split: option.splits)

lemma cleanup_removed:
  "rmtree_outcome w d = None \<Longrightarrow> d \<notin> fs (snd (cleanup w d s))"
  by (auto simp: cleanup_def io_defs os_path_exists_def shutil_rmtree_def clone_defs
      split: option.splits)

lemma cleanup_left:
  "d \<in> fs (snd (cleanup w d s)) \<Longrightarrow>
     \<exists>e. rmtree_outcome w d = Some e \<and> cleanup_warning e \<in> set (tests (locals (snd (cleanup w d s))))"
  by (auto simp: cleanup_def io_defs os_path_exists_def shutil_rmtree_def clone_defs
      split: option.splits if_splits)

lemma api_access_returns: "fst (api_access w t ow rp s) = Inr ()"
  by (auto simp: api_access_def io_defs requests_get_def clone_defs split: sum.splits)

lemma api_access_status: "r_status (locals (snd (api_access w t ow rp s))) = r_status (locals s)"
  by (auto simp: api_access_def io_defs requests_get_def clone_defs split: sum.splits)

lemma api_access_fs: "fs (snd (api_access w t ow rp s)) = fs s"
  by (auto simp: api_access_def io_defs requests_get_def clone_defs split: sum.splits)

lemma api_access_tests:
  "prefix (tests (locals s)) (tests (locals (snd (api_access w t ow rp s))))"
  by (auto simp: api_access_def io_defs requests_get_def clone_defs split: sum.splits)

lemma api_access_calls: "calls_step s (snd (api_access w t ow rp s))"
  by (auto simp: calls_step_def api_access_def io_defs requests_get_def clone_defs
      call_ok_def bounded_call_def split: sum.splits)

section \<open>Runs of test_simple_clone\<close>

lemma try_finally_Inr:
  "fst (m s) = Inr x \<Longrightarrow> fst (fin (snd (m s))) = Inr () \<Longrightarrow>
     try_finally m fin s = (Inr x, snd (fin (snd (m s))))"
  by (cases "m s"; cases "fin (snd (m s))") (auto simp: try_finally_def)

lemma clone_with_token_raises:
  "mkdtemp_outcome w ''clone_test_'' = Inl e \<Longrightarrow> clone_with_token w t ow rp s = (Inl e, s)"
  by (simp add: clone_with_token_def bind_def tempfile_mkdtemp_def)

lemma clone_with_token_run:
  assumes "mkdtemp_outcome w ''clone_test_'' = Inr d"
  shows "clone_with_token w t ow rp s
           = (Inr (), snd (cleanup w d (snd (clone_attempt w t ow rp d (s\<lparr>fs := insert d (fs s)\<rparr>)))))"
  using assms
  by (simp add: clone_with_token_def bind_def tempfile_mkdtemp_def
      try_finally_Inr [OF clone_attempt_returns cleanup_returns])

lemma clone_with_token_calls: "calls_step s (snd (clone_with_token w t ow rp s))"
proof (cases "mkdtemp_outcome w ''clone_test_''")
  case (Inl e)
  then show ?thesis by (simp add: clone_with_token_raises calls_step_refl)
next
  case (Inr d)
  define s1 where "s1 = s\<lparr>fs := insert d (fs s)\<rparr>"
  have a: "calls_step s1 (snd (clone_attempt w t ow rp d s1))" by (rule clone_attempt_calls)
  have b: "calls_step (snd (clone_attempt w t ow rp d s1))
             (snd (cleanup w d (snd (clone_attempt w t ow rp d s1))))"
    by (simp add: calls_step_def cleanup_calls)
  from calls_step_trans [OF a b]
  have "calls_step (s\<lparr>fs := insert d (fs s)\<rparr>)
          (snd (cleanup w d (snd (clone_attempt w t ow rp d (s\<lparr>fs := insert d (fs s)\<rparr>)))))"
    by (simp add: s1_def)
  then show ?thesis by (simp add: clone_with_token_run [OF Inr] calls_step_def)
qed

lemma test_simple_clone_body_calls: "calls_step s (snd (test_simple_clone_body w url s))"
proof (cases "truthy_token w")
  case None
  then show ?thesis by (simp add: test_simple_clone_body_def ret_def calls_step_refl)
next
  case (Some t)
  show ?thesis
  proof (cases "parse_repository_url url")
    case None
    with Some show ?thesis by (simp add: test_simple_clone_body_def ret_def calls_step_refl)
  next
    case (Some p)
    obtain ow rp where p: "p = (ow, rp)" by (cases p)
    have a: "\<And>s. calls_step s (snd (set_locals (new_results ow rp) s))"
      by (simp add: set_locals_def calls_step_def)
    have b: "\<And>s. calls_step s (snd (return_results s))"
      by (simp add: return_results_def calls_step_refl)
    from \<open>truthy_token w = Some t\<close> Some p show ?thesis
      by (simp add: test_simple_clone_body_def)
        (intro calls_step_seq a b clone_with_token_calls api_access_calls)
  qed
qed

lemma test_simple_clone_calls: "list_all call_ok (calls (snd (test_simple_clone w url fs0)))"
  unfolding test_simple_clone_def
  by (rule calls_step_start, rule calls_step_try_except, rule test_simple_clone_body_calls,
      rule calls_step_ret)

text \<open>A run that passes both guards and gets its temporary directory: the mapping that is
  returned and the state at the end.\<close>

lemma test_simple_clone_run:
  assumes tok: "truthy_token w = Some t" and url: "parse_repository_url url = Some (ow, rp)"
    and mk: "mkdtemp_outcome w ''clone_test_'' = Inr d"
  obtains s1 s2 s3 s4 where
    "test_simple_clone w url fs0 = (Inr (results_dict (locals s4)), s4)"
    and "r_status (locals s1) = ''testing''"
    and "s2 = snd (clone_attempt w t ow rp d s1)"
    and "s3 = snd (cleanup w d s2)"
    and "s4 = snd (api_access w t ow rp s3)"
proof -
  define s1 where "s1 = (start fs0 (new_results [] []))\<lparr>locals := new_results ow rp, fs := insert d fs0\<rparr>"
  define s2 where "s2 = snd (clone_attempt w t ow rp d s1)"
  define s3 where "s3 = snd (cleanup w d s2)"
  define s4 where "s4 = snd (api_access w t ow rp s3)"
  have "test_simple_clone_body w url (start fs0 (new_results [] []))
          = (Inr (results_dict (locals s4)), s4)"
    unfolding s4_def s3_def s2_def s1_def
    by (simp add: test_simple_clone_body_def tok url seq_Inr set_locals_def
        clone_with_token_run [OF mk] api_access_returns start_def return_results_def)
  then have "test_simple_clone w url fs0 = (Inr (results_dict (locals s4)), s4)"
    by (simp add: test_simple_clone_def try_except_def)
  moreover have "r_status (locals s1) = ''testing''"
    by (simp add: s1_def new_results_def)
  ultimately show ?thesis using s2_def s3_def s4_def by (rule that)
qed


lemma status_results_dict [simp]: "str_field (results_dict r) ''status'' = Some (r_status r)"
  by (simp add: str_field_def results_dict_def)

lemma tests_results_dict [simp]: "list_field (results_dict r) ''tests'' = map PDict (tests r)"
  by (simp add: list_field_def results_dict_def)

lemma test_simple_clone_status:
  assumes tok: "truthy_token w = Some t" and url: "parse_repository_url url = Some (ow, rp)"
    and mk: "mkdtemp_outcome w ''clone_test_'' = Inr d"
  shows "str_field (returned (test_simple_clone w url fs0)) ''status''
           = Some (if clone_succeeded w t ow rp d then ''success'' else ''testing'')"
proof (rule test_simple_clone_run [OF tok url mk, of fs0])
  fix s1 s2 s3 s4
  assume run: "test_simple_clone w url fs0 = (Inr (results_dict (locals s4)), s4)"
    and s1: "r_status (locals s1) = ''testing''"
    and s2: "s2 = snd (clone_attempt w t ow rp d s1)"
    and s3: "s3 = snd (cleanup w d s2)"
    and s4: "s4 = snd (api_access w t ow rp s3)"
  have "r_status (locals s4) = (if clone_succeeded w t ow rp d then ''success'' else ''testing'')"
    unfolding s4 s3 s2 by (simp add: api_access_status cleanup_status clone_attempt_status s1)
  then show ?thesis by (simp add: run returned_def)
qed

section \<open>Every operation returns a record; its calls\<close>





lemma calls_step_of_result: "calls_step s (snd (of_result r s))"
  by (simp add: of_result_def calls_step_refl)

lemma calls_step_requests_get: "calls_step s (snd (requests_get w url (Some 10) s))"
  by (simp add: requests_get_def calls_step_def call_ok_def bounded_call_def)

lemma calls_step_requests_put: "calls_step s (snd (requests_put w url body (Some 10) s))"
  by (simp add: requests_put_def calls_step_def call_ok_def bounded_call_def)




lemma get_github_file_body_calls:
  "calls_step s (snd (get_github_file_body w url file_path branch s))"
  unfolding get_github_file_body_def decode_content_def
  by (auto intro!: calls_step_bind calls_step_ret calls_step_of_result calls_step_requests_get
      split: option.splits)

lemma get_github_file_calls:
  "list_all call_ok (calls (snd (get_github_file w url file_path branch fs0)))"
  unfolding get_github_file_def
  by (rule calls_step_start, rule calls_step_try_except, rule get_github_file_body_calls,
      rule calls_step_ret)



lemma create_file_via_api_body_calls:
  "calls_step s (snd (create_file_via_api_body w url file_path file_content commit_message s))"
  unfolding create_file_via_api_body_def
  by (auto intro!: calls_step_bind calls_step_ret calls_step_of_result calls_step_requests_put
      split: option.splits)

lemma create_file_via_api_calls:
  "list_all call_ok
     (calls (snd (create_file_via_api w url file_path file_content commit_message fs0)))"
  unfolding create_file_via_api_def
  by (rule calls_step_start, rule calls_step_try_except, rule create_file_via_api_body_calls,
      rule calls_step_ret)


lemma fix_user_configuration_calls: "calls_step s (snd (fix_user_configuration w s))"
  by (auto simp: calls_step_def fix_user_configuration_def io_defs subprocess_run_check_def
      subprocess_run_def append_fix_def call_ok_def split: sum.splits)


lemma fix_credential_helper_calls: "calls_step s (snd (fix_credential_helper w s))"
  by (auto simp: calls_step_def fix_credential_helper_def io_defs subprocess_run_check_def
      subprocess_run_def os_system_def append_fix_def call_ok_def split: sum.splits)


lemma fix_cached_credentials_calls: "calls_step s (snd (fix_cached_credentials w s))"
  by (auto simp: calls_step_def fix_cached_credentials_def io_defs subprocess_run_def
      append_fix_def call_ok_def split: sum.splits)


lemma fix_git_setup_body_calls: "calls_step s (snd (fix_git_setup_body w s))"
proof -
  have r: "\<And>s. calls_step s (snd (return_fixes s))"
    by (simp add: return_fixes_def calls_step_refl)
  show ?thesis
    unfolding fix_git_setup_body_def
    by (intro calls_step_seq fix_user_configuration_calls fix_credential_helper_calls
        fix_cached_credentials_calls r)
qed

lemma fix_git_setup_calls: "list_all call_ok (calls (snd (fix_git_setup w fs0)))"
  unfolding fix_git_setup_def
  by (rule calls_step_start, rule calls_step_try_except, rule fix_git_setup_body_calls,
      rule calls_step_ret)

lemma http_calls_bounded:
  "list_all call_ok cl \<Longrightarrow> list_all bounded_call (filter is_http cl)"
  by (induction cl) (auto simp: call_ok_def elim: is_http.elims)

section \<open>Evaluating concrete runs\<close>

lemmas world_defs =
  world_ok_def world_no_token_def world_rmtree_fails_def world_mkdtemp_fails_def
  world_git_timeout_def ok_process_def ok_response_def

lemmas diagnose_run_defs =
  diagnose_git_setup_def diagnose_body_def check_git_installation_def check_github_token_def
  check_git_configuration_def check_directory_permissions_def check_network_def
  return_diagnosis_def new_diagnosis_def start_def diagnosis_dict_def
  io_defs call_defs diag_defs truthy_token_def returned_def str_field_def str_list_field_def
  strip_def is_space_def

lemmas clone_run_defs =
  test_simple_clone_def test_simple_clone_body_def clone_with_token_def clone_attempt_def
  cleanup_def api_access_def return_results_def new_results_def results_dict_def start_def
  clone_args_def io_defs call_defs clone_defs truthy_token_def returned_def str_field_def
  list_field_def path_join_def suffix_to_prefix

lemmas fix_run_defs =
  fix_git_setup_def fix_git_setup_body_def fix_user_configuration_def
  fix_credential_helper_def fix_cached_credentials_def return_fixes_def append_fix_def
  start_def io_defs call_defs returned_def str_field_def

lemma parse_acme_widgets:
  "parse_repository_url ''https://github.com/acme/widgets'' = Some (''acme'', ''widgets'')"
  by (simp add: parse_repository_url_def match_here_def opt_git_tail_def opt_slash_dollar_def
      at_dollar_def)

lemma parse_not_a_url: "parse_repository_url ''not-a-url'' = None"
  by (simp add: parse_repository_url_def match_here_def)

lemma set_map_filter: "x \<in> set xs \<Longrightarrow> f x = Some y \<Longrightarrow> y \<in> set (List.map_filter f xs)"
  by (auto simp: List.map_filter_def intro!: image_eqI [where x = x])

section \<open>The claims\<close>



text \<open>
  Claim C2, amended. A run of diagnose_git_setup that does not end in the outer catch-all
  (its status is \<^verbatim>\<open>success\<close>) returns at least five and at most eight check lines: each of
  the five sub-checks appends one line or two. Exactly five, as the claim has it, fails:
  with every call succeeding the token check and the configuration check append two lines
  each, seven lines in all.
\<close>

theorem diagnose_check_count:
  assumes "fst (diagnose_git_setup w dirs) = Inr r" and "str_field r ''status'' = Some ''success''"
  shows "5 \<le> length (str_list_field r ''checks'') \<and> length (str_list_field r ''checks'') \<le> 8"
proof (cases rule: diagnose_git_setup_cases [of w dirs])
  case (caught e)
  with assms show ?thesis by (auto simp: str_field_def)
next
  case (finished s')
  with assms(1) have r: "r = diagnosis_dict (locals s')" by simp
  from finished(2) show ?thesis unfolding r
    by (auto simp: diag_step_def start_def new_diagnosis_def)
qed

theorem diagnose_check_count_witness:
  "fst (diagnose_git_setup world_no_token {}) = Inr (returned (diagnose_git_setup world_no_token {}))
   \<and> str_field (returned (diagnose_git_setup world_no_token {})) ''status'' = Some ''success''
   \<and> 5 \<le> length (str_list_field (returned (diagnose_git_setup world_no_token {})) ''checks'')
   \<and> length (str_list_field (returned (diagnose_git_setup world_no_token {})) ''checks'') \<le> 8"
proof -
  have a: "fst (diagnose_git_setup world_no_token {})
             = Inr (returned (diagnose_git_setup world_no_token {}))"
    by (simp add: diagnose_run_defs world_defs)
  have b: "str_field (returned (diagnose_git_setup world_no_token {})) ''status'' = Some ''success''"
    by (simp add: diagnose_run_defs world_defs)
  from diagnose_check_count [OF a b] a b show ?thesis by simp
qed

theorem diagnose_check_count_counterexample:
  "str_field (returned (diagnose_git_setup world_ok {})) ''status'' = Some ''success''
   \<and> length (str_list_field (returned (diagnose_git_setup world_ok {})) ''checks'') = 7"
  by (simp add: diagnose_run_defs world_defs)

text \<open>
  Claim C3. For a well-formed URL of owner \<open>ow\<close> and repository \<open>rp\<close>, the parser shared by
  test_simple_clone, get_github_file and create_file_via_api returns the pair \<open>(ow, rp)\<close>
  with or without the prefix \<^verbatim>\<open>https://\<close> or \<^verbatim>\<open>http://\<close>, and with or without a trailing
  \<^verbatim>\<open>.git\<close>, a trailing slash, or both.
\<close>


theorem parse_ignores_scheme_and_suffix:
  assumes "owner_name_ok ow" and "repo_name_ok rp"
    and "scheme \<in> url_schemes" and "suf \<in> url_suffixes"
  shows "parse_repository_url (scheme @ ''github.com/'' @ ow @ ''/'' @ rp @ suf) = Some (ow, rp)"
proof -
  have "str_remove ''http://'' (str_remove ''https://''
          (scheme @ ''github.com/'' @ ow @ ''/'' @ rp @ suf))
        = ''github.com/'' @ ow @ ''/'' @ rp @ suf"
    using wellformed_no_double_slash [OF assms(1,2,4)] assms(3) by (rule strip_scheme)
  moreover have "re_search ([] @ ''github.com/'' @ ow @ ''/'' @ rp @ suf) = Some (ow, rp)"
    using assms(1,2,4) by (rule re_search_unanchored)
  ultimately show ?thesis by (simp add: parse_repository_url_def)
qed

theorem parse_ignores_scheme_and_suffix_witness:
  "owner_name_ok ''acme'' \<and> repo_name_ok ''widgets'' \<and> ''https://'' \<in> url_schemes
   \<and> ''.git/'' \<in> url_suffixes
   \<and> parse_repository_url ''https://github.com/acme/widgets.git/'' = Some (''acme'', ''widgets'')
   \<and> parse_repository_url ''github.com/acme/widgets'' = Some (''acme'', ''widgets'')"
proof -
  have a: "owner_name_ok ''acme''" by (simp add: owner_name_ok_def)
  have b: "repo_name_ok ''widgets''" by (simp add: repo_name_ok_def suffix_def)
  have c: "''https://'' \<in> url_schemes" "[] \<in> url_schemes" by (simp_all add: url_schemes_def)
  have d: "''.git/'' \<in> url_suffixes" "[] \<in> url_suffixes" by (simp_all add: url_suffixes_def)
  from parse_ignores_scheme_and_suffix [OF a b c(1) d(1)]
    parse_ignores_scheme_and_suffix [OF a b c(2) d(2)] a b c d
  show ?thesis by simp
qed

text \<open>
  Claim C4. When the variable GITHUB_TOKEN is absent, test_simple_clone, get_github_file
  and create_file_via_api each return an error record whose message reports the missing
  token, and make no subprocess invocation and no HTTP request.
\<close>

theorem missing_token_errors:
  assumes "environ_GITHUB_TOKEN w = None"
  shows "str_field (returned (test_simple_clone w url dirs)) ''status'' = Some ''error''
   \<and> str_field (returned (test_simple_clone w url dirs)) ''error_message''
       = Some ''No GitHub token found''
   \<and> calls (snd (test_simple_clone w url dirs)) = []
   \<and> str_field (returned (get_github_file w url file_path branch dirs)) ''status'' = Some ''error''
   \<and> str_field (returned (get_github_file w url file_path branch dirs)) ''error_message''
       = Some ''GitHub token not found. Please set GITHUB_TOKEN in your .env file.''
   \<and> calls (snd (get_github_file w url file_path branch dirs)) = []
   \<and> str_field (returned (create_file_via_api w url file_path file_content commit_message dirs))
        ''status'' = Some ''error''
   \<and> str_field (returned (create_file_via_api w url file_path file_content commit_message dirs))
        ''error_message'' = Some ''GitHub token not found''
   \<and> calls (snd (create_file_via_api w url file_path file_content commit_message dirs)) = []"
proof -
  from assms have t: "truthy_token w = None" by (simp add: truthy_token_def)
  show ?thesis
    by (simp add: t test_simple_clone_def test_simple_clone_body_def get_github_file_def
        get_github_file_body_def create_file_via_api_def create_file_via_api_body_def
        try_except_def ret_def start_def returned_def str_field_def)
qed

theorem missing_token_errors_witness:
  "environ_GITHUB_TOKEN world_no_token = None
   \<and> str_field (returned (test_simple_clone world_no_token ''https://github.com/acme/widgets'' {}))
        ''error_message'' = Some ''No GitHub token found''
   \<and> calls (snd (test_simple_clone world_no_token ''https://github.com/acme/widgets'' {})) = []
   \<and> calls (snd (get_github_file world_no_token ''https://github.com/acme/widgets''
                    ''README.md'' ''main'' {})) = []
   \<and> calls (snd (create_file_via_api world_no_token ''https://github.com/acme/widgets''
                    ''README.md'' ''x = 1'' ''AI Agent: Created file'' {})) = []"
proof -
  have a: "environ_GITHUB_TOKEN world_no_token = None" by (simp add: world_defs)
  from missing_token_errors [OF a, where url = "''https://github.com/acme/widgets''"
      and dirs = "{}" and file_path = "''README.md''" and branch = "''main''"
      and file_content = "''x = 1''" and commit_message = "''AI Agent: Created file''"] a
  show ?thesis by blast
qed

text \<open>
  Claim C5, amended. For an input that the URL pattern does not match, each of the three
  parsing operations returns an error record and makes no HTTP request and no subprocess
  invocation; when GITHUB_TOKEN is set and not empty, the error message is the
  invalid-format text followed by the input. With the token missing the token guard comes
  first and the message is the one of the missing token, which is where the claim as
  stated fails. The witness is \<^verbatim>\<open>test_simple_clone("not-a-url")\<close>.
\<close>

theorem malformed_url_errors:
  assumes "parse_repository_url url = None"
  shows "str_field (returned (test_simple_clone w url dirs)) ''status'' = Some ''error''
   \<and> calls (snd (test_simple_clone w url dirs)) = []
   \<and> str_field (returned (get_github_file w url file_path branch dirs)) ''status'' = Some ''error''
   \<and> calls (snd (get_github_file w url file_path branch dirs)) = []
   \<and> str_field (returned (create_file_via_api w url file_path file_content commit_message dirs))
        ''status'' = Some ''error''
   \<and> calls (snd (create_file_via_api w url file_path file_content commit_message dirs)) = []
   \<and> (truthy_token w \<noteq> None \<longrightarrow>
        str_field (returned (test_simple_clone w url dirs)) ''error_message''
          = Some (invalid_url_message url)
        \<and> str_field (returned (get_github_file w url file_path branch dirs)) ''error_message''
            = Some (invalid_url_message url)
        \<and> str_field (returned (create_file_via_api w url file_path file_content commit_message dirs))
             ''error_message'' = Some (invalid_url_message url))"
  by (cases "truthy_token w")
    (simp_all add: assms test_simple_clone_def test_simple_clone_body_def get_github_file_def
      get_github_file_body_def create_file_via_api_def create_file_via_api_body_def
      try_except_def ret_def start_def returned_def str_field_def)

theorem malformed_url_errors_witness:
  "parse_repository_url ''not-a-url'' = None
   \<and> truthy_token world_ok \<noteq> None
   \<and> str_field (returned (test_simple_clone world_ok ''not-a-url'' {})) ''status'' = Some ''error''
   \<and> calls (snd (test_simple_clone world_ok ''not-a-url'' {})) = []
   \<and> str_field (returned (test_simple_clone world_ok ''not-a-url'' {})) ''error_message''
       = Some ''Invalid GitHub URL format: not-a-url''"
proof -
  have t: "truthy_token world_ok \<noteq> None" by (simp add: truthy_token_def world_defs)
  from malformed_url_errors [OF parse_not_a_url, where w = world_ok and dirs = "{}"] t parse_not_a_url
  show ?thesis by (simp add: invalid_url_message_def)
qed

theorem malformed_url_errors_counterexample:
  "parse_repository_url ''not-a-url'' = None
   \<and> str_field (returned (test_simple_clone world_no_token ''not-a-url'' {})) ''error_message''
       = Some ''No GitHub token found''
   \<and> \<not> sublist ''Invalid GitHub URL format'' ''No GitHub token found''"
  by (simp add: parse_not_a_url clone_run_defs world_defs sublist_Cons_right)




text \<open>
  Claim C7, amended. On every path of the clone attempt the removal of the temporary
  directory is tried before the operation returns. When the removal raises nothing, the
  directory does not exist afterwards. When the directory still exists afterwards, the
  removal raised and a \<^verbatim>\<open>Cleanup\<close> warning entry with its message is among the tests. The
  status is the one of the same run with a removal that succeeds.
\<close>

theorem clone_cleanup:
  assumes tok: "truthy_token w = Some t" and url: "parse_repository_url url = Some (ow, rp)"
    and mk: "mkdtemp_outcome w ''clone_test_'' = Inr d"
  shows "(rmtree_outcome w d = None \<longrightarrow> d \<notin> fs (snd (test_simple_clone w url dirs)))
       \<and> (d \<in> fs (snd (test_simple_clone w url dirs)) \<longrightarrow>
            (\<exists>e. rmtree_outcome w d = Some e
               \<and> PDict (cleanup_warning e)
                    \<in> set (list_field (returned (test_simple_clone w url dirs)) ''tests'')))
       \<and> str_field (returned (test_simple_clone w url dirs)) ''status''
           = str_field
               (returned (test_simple_clone (w\<lparr>rmtree_outcome := \<lambda>p. None\<rparr>) url dirs)) ''status''"
proof (rule test_simple_clone_run [OF tok url mk, of dirs])
  fix s1 s2 s3 s4
  assume run: "test_simple_clone w url dirs = (Inr (results_dict (locals s4)), s4)"
    and s3: "s3 = snd (cleanup w d s2)"
    and s4: "s4 = snd (api_access w t ow rp s3)"
  have fs4: "fs s4 = fs s3" unfolding s4 by (rule api_access_fs)
  have removed: "rmtree_outcome w d = None \<longrightarrow> d \<notin> fs (snd (test_simple_clone w url dirs))"
    by (simp add: run fs4 s3 cleanup_removed)
  have left: "d \<in> fs (snd (test_simple_clone w url dirs)) \<longrightarrow>
            (\<exists>e. rmtree_outcome w d = Some e
               \<and> PDict (cleanup_warning e)
                    \<in> set (list_field (returned (test_simple_clone w url dirs)) ''tests''))"
  proof
    assume "d \<in> fs (snd (test_simple_clone w url dirs))"
    then have "d \<in> fs (snd (cleanup w d s2))" by (simp add: run fs4 s3)
    from cleanup_left [OF this] obtain e where e: "rmtree_outcome w d = Some e"
      and "cleanup_warning e \<in> set (tests (locals s3))" by (auto simp: s3)
    moreover have "prefix (tests (locals s3)) (tests (locals s4))"
      unfolding s4 by (rule api_access_tests)
    ultimately have "cleanup_warning e \<in> set (tests (locals s4))"
      by (auto dest: set_mono_prefix)
    then have "PDict (cleanup_warning e)
                 \<in> set (list_field (returned (test_simple_clone w url dirs)) ''tests'')"
      by (simp add: run returned_def)
    with e show "\<exists>e. rmtree_outcome w d = Some e
               \<and> PDict (cleanup_warning e)
                    \<in> set (list_field (returned (test_simple_clone w url dirs)) ''tests'')"
      by blast
  qed
  let ?w = "w\<lparr>rmtree_outcome := \<lambda>p. None\<rparr>"
  have tok': "truthy_token ?w = Some t" using tok by (simp add: truthy_token_def)
  have mk': "mkdtemp_outcome ?w ''clone_test_'' = Inr d" using mk by simp
  have same: "clone_succeeded ?w t ow rp d = clone_succeeded w t ow rp d"
    by (simp add: clone_succeeded_def)
  have "str_field (returned (test_simple_clone w url dirs)) ''status''
           = str_field (returned (test_simple_clone ?w url dirs)) ''status''"
    by (simp only: test_simple_clone_status [OF tok url mk]
        test_simple_clone_status [OF tok' url mk'] same)
  with removed left show ?thesis by blast
qed

theorem clone_cleanup_witness:
  "truthy_token world_rmtree_fails = Some ''tok''
   \<and> parse_repository_url ''https://github.com/acme/widgets'' = Some (''acme'', ''widgets'')
   \<and> mkdtemp_outcome world_rmtree_fails ''clone_test_'' = Inr ''/tmp/clone_test_x''
   \<and> mkdtemp_outcome world_ok ''clone_test_'' = Inr ''/tmp/clone_test_x''
   \<and> rmtree_outcome world_ok ''/tmp/clone_test_x'' = None
   \<and> ''/tmp/clone_test_x''
        \<notin> fs (snd (test_simple_clone world_ok ''https://github.com/acme/widgets'' {}))
   \<and> PDict (cleanup_warning (OtherException ''Permission denied''))
        \<in> set (list_field
                 (returned (test_simple_clone world_rmtree_fails ''https://github.com/acme/widgets'' {}))
                 ''tests'')"
proof -
  let ?url = "''https://github.com/acme/widgets''"
  have a: "truthy_token world_rmtree_fails = Some ''tok''"
    and a': "truthy_token world_ok = Some ''tok''"
    by (simp_all add: truthy_token_def world_defs)
  have c: "mkdtemp_outcome world_rmtree_fails ''clone_test_'' = Inr ''/tmp/clone_test_x''"
    and c': "mkdtemp_outcome world_ok ''clone_test_'' = Inr ''/tmp/clone_test_x''"
    by (simp_all add: world_defs)
  have r: "rmtree_outcome world_ok ''/tmp/clone_test_x'' = None"
    and r': "rmtree_outcome world_rmtree_fails ''/tmp/clone_test_x''
               = Some (OtherException ''Permission denied'')"
    by (simp_all add: world_defs)
  have still: "''/tmp/clone_test_x'' \<in> fs (snd (test_simple_clone world_rmtree_fails ?url {}))"
    by (simp add: clone_run_defs world_defs parse_acme_widgets)
  from clone_cleanup [OF a' parse_acme_widgets c', of "{}"] r
  have 1: "''/tmp/clone_test_x'' \<notin> fs (snd (test_simple_clone world_ok ?url {}))"
    by blast
  from clone_cleanup [OF a parse_acme_widgets c, of "{}"] still
  have "\<exists>e. rmtree_outcome world_rmtree_fails ''/tmp/clone_test_x'' = Some e
          \<and> PDict (cleanup_warning e)
               \<in> set (list_field (returned (test_simple_clone world_rmtree_fails ?url {})) ''tests'')"
    by blast
  with r' have 2: "PDict (cleanup_warning (OtherException ''Permission denied''))
        \<in> set (list_field (returned (test_simple_clone world_rmtree_fails ?url {})) ''tests'')"
    by auto
  from a parse_acme_widgets c c' r 1 2 show ?thesis by blast
qed

theorem clone_cleanup_counterexample:
  "mkdtemp_outcome world_rmtree_fails ''clone_test_'' = Inr ''/tmp/clone_test_x''
   \<and> str_field
        (returned (test_simple_clone world_rmtree_fails ''https://github.com/acme/widgets'' {}))
        ''status'' = Some ''success''
   \<and> ''/tmp/clone_test_x''
        \<in> fs (snd (test_simple_clone world_rmtree_fails ''https://github.com/acme/widgets'' {}))"
  by (simp add: clone_run_defs world_defs parse_acme_widgets)

text \<open>
  Claim C8, amended. In every record that diagnose_git_setup returns, each check line
  with the failure marker has its recommendation in the \<^verbatim>\<open>recommendations\<close> list, unless it
  is one of the four failure lines of \<open>without_remedy\<close> (the timeout of \<^verbatim>\<open>git --version\<close>, an
  exception of the API identity call, an exception of the \<^verbatim>\<open>git config\<close> calls, a status
  other than 200 from github.com).
\<close>

theorem failure_lines_have_recommendations:
  assumes "fst (diagnose_git_setup w dirs) = Inr r"
    and "e \<in> set (str_list_field r ''checks'')"
    and "is_failure_line e" and "\<not> without_remedy e"
  shows "\<exists>rec. remedy_for e = Some rec \<and> rec \<in> set (str_list_field r ''recommendations'')"
proof (cases rule: diagnose_git_setup_cases [of w dirs])
  case (caught x)
  with assms(1,2) show ?thesis by (auto simp: str_list_field_def)
next
  case (finished s')
  with assms(1) have r: "r = diagnosis_dict (locals s')" by simp
  from finished(2) have acc: "list_all accounted (checks (locals s'))"
    and recs: "recommendations (locals s') = List.map_filter remedy_for (checks (locals s'))"
    by (auto simp: diag_step_def start_def new_diagnosis_def)
  from assms(2) have e: "e \<in> set (checks (locals s'))" by (simp add: r)
  with acc have "accounted e" by (simp add: list_all_iff)
  with assms(3,4) obtain rec where rec: "remedy_for e = Some rec"
    by (auto simp: accounted_def)
  from set_map_filter [where f = remedy_for, OF e rec] have "rec \<in> set (str_list_field r ''recommendations'')"
    by (simp add: r recs)
  with rec show ?thesis by blast
qed

theorem failure_lines_have_recommendations_witness:
  "fst (diagnose_git_setup world_no_token {}) = Inr (returned (diagnose_git_setup world_no_token {}))
   \<and> cross_mark @ '' GITHUB_TOKEN not found''
        \<in> set (str_list_field (returned (diagnose_git_setup world_no_token {})) ''checks'')
   \<and> is_failure_line (cross_mark @ '' GITHUB_TOKEN not found'')
   \<and> \<not> without_remedy (cross_mark @ '' GITHUB_TOKEN not found'')
   \<and> ''Set GITHUB_TOKEN in .env file with a valid GitHub Personal Access Token''
        \<in> set (str_list_field (returned (diagnose_git_setup world_no_token {})) ''recommendations'')"
proof -
  let ?r = "returned (diagnose_git_setup world_no_token {})"
  let ?e = "cross_mark @ '' GITHUB_TOKEN not found''"
  have a: "fst (diagnose_git_setup world_no_token {}) = Inr ?r"
    by (simp add: diagnose_run_defs world_defs)
  have b: "?e \<in> set (str_list_field ?r ''checks'')"
    by (simp add: diagnose_run_defs world_defs)
  have c: "is_failure_line ?e" by (simp add: is_failure_line_def)
  have d: "\<not> without_remedy ?e" by (simp add: without_remedy_def mark_defs)
  from failure_lines_have_recommendations [OF a b c d]
  have "''Set GITHUB_TOKEN in .env file with a valid GitHub Personal Access Token''
          \<in> set (str_list_field ?r ''recommendations'')"
    by (simp add: remedy_for_lines)
  with a b c d show ?thesis by simp
qed

theorem failure_lines_have_recommendations_counterexample:
  "cross_mark @ '' Git command timed out''
     \<in> set (str_list_field (returned (diagnose_git_setup world_git_timeout {})) ''checks'')
   \<and> is_failure_line (cross_mark @ '' Git command timed out'')
   \<and> str_list_field (returned (diagnose_git_setup world_git_timeout {})) ''recommendations'' = []"
  by (simp add: diagnose_run_defs world_defs is_failure_line_def)

text \<open>
  Claim C9, amended. Every HTTP call of every operation is bounded by an explicit timeout
  between 5 and 30 seconds, and every other external call either is bounded in the same
  way (\<^verbatim>\<open>git --version\<close>, \<^verbatim>\<open>git clone\<close>) or is an invocation of \<^verbatim>\<open>git config\<close>,
  \<^verbatim>\<open>git credential\<close> or \<^verbatim>\<open>os.system\<close>, which fix_git_setup makes without a timeout.
\<close>

theorem external_calls_timeouts:
  "list_all call_ok (calls (snd (diagnose_git_setup w dirs)))
   \<and> list_all call_ok (calls (snd (test_simple_clone w url dirs)))
   \<and> list_all call_ok (calls (snd (get_github_file w url file_path branch dirs)))
   \<and> list_all call_ok (calls (snd (fix_git_setup w dirs)))
   \<and> list_all call_ok
        (calls (snd (create_file_via_api w url file_path file_content commit_message dirs)))
   \<and> list_all bounded_call (filter is_http (calls (snd (diagnose_git_setup w dirs))))
   \<and> list_all bounded_call (filter is_http (calls (snd (test_simple_clone w url dirs))))
   \<and> list_all bounded_call
        (filter is_http (calls (snd (get_github_file w url file_path branch dirs))))
   \<and> list_all bounded_call (filter is_http (calls (snd (fix_git_setup w dirs))))
   \<and> list_all bounded_call
        (filter is_http
           (calls (snd (create_file_via_api w url file_path file_content commit_message dirs))))"
  by (intro conjI http_calls_bounded diagnose_git_setup_calls test_simple_clone_calls
      get_github_file_calls fix_git_setup_calls create_file_via_api_calls)

theorem external_calls_timeouts_witness:
  "calls (snd (test_simple_clone world_ok ''https://github.com/acme/widgets'' {}))
     = [Subprocess [''git'', ''clone'', ''https://tok@github.com/acme/widgets.git'',
                    ''/tmp/clone_test_x/widgets''] (Some 30),
        HttpGet ''https://api.github.com/repos/acme/widgets'' (Some 10)]
   \<and> list_all call_ok (calls (snd (test_simple_clone world_ok ''https://github.com/acme/widgets'' {})))
   \<and> list_all bounded_call
        (filter is_http (calls (snd (test_simple_clone world_ok ''https://github.com/acme/widgets'' {}))))"
proof -
  have c: "calls (snd (test_simple_clone world_ok ''https://github.com/acme/widgets'' {}))
     = [Subprocess [''git'', ''clone'', ''https://tok@github.com/acme/widgets.git'',
                    ''/tmp/clone_test_x/widgets''] (Some 30),
        HttpGet ''https://api.github.com/repos/acme/widgets'' (Some 10)]"
    by (simp add: clone_run_defs world_defs parse_acme_widgets)
  from external_calls_timeouts [where w = world_ok and dirs = "{}"
      and url = "''https://github.com/acme/widgets''"] c
  show ?thesis by blast
qed

theorem external_calls_timeouts_counterexample:
  "calls (snd (fix_git_setup world_ok {}))
     = [Subprocess [''git'', ''config'', ''--global'', ''user.name'', ''AI Agent''] None,
        Subprocess [''git'', ''config'', ''--global'', ''user.email'', ''ai-agent@example.com'']
          None,
        OsSystem ''which git-credential-osxkeychain'',
        Subprocess [''git'', ''credential'', ''reject''] None]
   \<and> \<not> list_all bounded_call (calls (snd (fix_git_setup world_ok {})))"
  by (simp add: fix_run_defs world_defs bounded_call_def)

text \<open>
  Claim C10. The pattern is not anchored at the host: whenever the input, after the two
  \<^verbatim>\<open>replace\<close> calls, ends with \<^verbatim>\<open>github.com/<owner>/<name>\<close> and an optional \<^verbatim>\<open>.git\<close> or slash,
  whatever stands before it, parsing succeeds with that owner and name. The witness is
  the input \<^verbatim>\<open>evil.example/github.com/a/b\<close>.
\<close>


theorem parse_host_not_anchored:
  assumes "str_remove ''http://'' (str_remove ''https://'' url)
             = pre @ ''github.com/'' @ ow @ ''/'' @ rp @ suf"
    and "owner_name_ok ow" and "repo_name_ok rp" and "suf \<in> url_suffixes"
  shows "parse_repository_url url = Some (ow, rp)"
  unfolding parse_repository_url_def assms(1)
  using assms(2-4) by (rule re_search_unanchored)

theorem parse_host_not_anchored_witness:
  "str_remove ''http://'' (str_remove ''https://'' ''evil.example/github.com/a/b'')
     = ''evil.example/'' @ ''github.com/'' @ ''a'' @ ''/'' @ ''b'' @ []
   \<and> owner_name_ok ''a'' \<and> repo_name_ok ''b'' \<and> [] \<in> url_suffixes
   \<and> parse_repository_url ''evil.example/github.com/a/b'' = Some (''a'', ''b'')"
proof -
  have a: "str_remove ''http://'' (str_remove ''https://'' ''evil.example/github.com/a/b'')
     = ''evil.example/'' @ ''github.com/'' @ ''a'' @ ''/'' @ ''b'' @ []" by simp
  have b: "owner_name_ok ''a''" by (simp add: owner_name_ok_def)
  have c: "repo_name_ok ''b''" by (simp add: repo_name_ok_def suffix_def)
  have d: "[] \<in> url_suffixes" by (simp add: url_suffixes_def)
  from parse_host_not_anchored [OF a b c d] a b c d show ?thesis by simp
qed

end
